theory Spec2Isabelle
  imports Complex_Main "HOL-Library.Word" "HOL-Library.Signed_Division"
begin

section \<open>Go base types\<close>

text \<open>
  Go's \<open>int\<close>, \<open>int64\<close> and \<open>time.Duration\<close> (nanoseconds) are 64-bit two's complement
  integers: \<open>64 word\<close>, read with \<open>sint\<close> and compared with the signed orders. A
  \<open>time.Time\<close> is an instant, modelled as the number of nanoseconds since Go's zero time
  (\<open>time.Time{}\<close>), so \<open>Before\<close>/\<open>After\<close> are \<open><\<close>/\<open>>\<close> and \<open>t.Add(d)\<close> is
  \<open>t + sint d\<close>. Every call of \<open>time.Now()\<close> inside one operation is given the same
  instant \<open>now\<close>, passed as an argument.
\<close>

type_synonym go_int = "64 word"
type_synonym Duration = "64 word"
type_synonym Time = int

definition zeroTime :: Time where "zeroTime = 0"
definition Second :: Duration where "Second = 1000000000"
definition Minute :: Duration where "Minute = 60 * Second"
definition Hour :: Duration where "Hour = 60 * Minute"

definition Add :: "Time \<Rightarrow> Duration \<Rightarrow> Time" where
  "Add t d = t + sint d"

text \<open>Go's integer division truncates towards zero and wraps on \<open>MinInt64 / -1\<close>.\<close>

definition go_div :: "go_int \<Rightarrow> go_int \<Rightarrow> go_int" where
  "go_div a b = word_of_int (sint a sdiv sint b)"

section \<open>Errors\<close>

text \<open>
  Every Go function of the service that returns an \<open>error\<close> is modelled with a result of
  type \<open>error + 'a\<close>; \<open>Inl\<close> carries the error, one constructor per \<open>fmt.Errorf\<close> /
  \<open>errors.New\<close> site that the modelled functions can reach.
\<close>

datatype error =
    InvalidFromStatus string
  | InvalidWorkflowTransition string string
  | InvalidExecutionTransition string string
  | WorkflowNotFound string
  | ExecutionNotFound string
  | EngineExecutionNotFound string
  | WorkflowNameRequired
  | WorkflowVersionRequired
  | InvalidWorkflowStatus
  | ExecWorkflowIdRequired
  | ExecWorkflowVersionRequired
  | InvalidExecutionStatus
  | RetryCountNegative
  | MaxRetriesNegative
  | ExecutionAlreadyFinished
  | ExecutionCannotBeRetried
  | SaveFailed
  | MissingConditionConfig
  | InvalidExpressionFormat string
  | NonNumericValue
  | InvalidTargetValue string
  | UnsupportedOperator string
  | ScheduleIsNil
  | CronExpressionEmpty
  | IntervalMustBePositive
  | ExecuteAtRequired
  | UnsupportedScheduleType string
  | PanicDivideByZero
  | Wrapped string error

section \<open>State manager (service/state\_manager.go)\<close>

text \<open>
  \<open>WorkflowStatus\<close> and \<open>ExecutionStatus\<close> are Go string types, so any string can be
  passed as a status. The transition tables are the two map literals of
  \<open>initializeTransitionRules\<close>, kept as association lists in source order.
\<close>

type_synonym WorkflowStatus = string
type_synonym ExecutionStatus = string

definition WorkflowStatusInactive :: WorkflowStatus where "WorkflowStatusInactive = ''inactive''"
definition WorkflowStatusActive :: WorkflowStatus where "WorkflowStatusActive = ''active''"
definition WorkflowStatusPaused :: WorkflowStatus where "WorkflowStatusPaused = ''paused''"
definition WorkflowStatusDisabled :: WorkflowStatus where "WorkflowStatusDisabled = ''disabled''"

definition ExecutionStatusPending :: ExecutionStatus where "ExecutionStatusPending = ''pending''"
definition ExecutionStatusRunning :: ExecutionStatus where "ExecutionStatusRunning = ''running''"
definition ExecutionStatusCompleted :: ExecutionStatus where "ExecutionStatusCompleted = ''completed''"
definition ExecutionStatusFailed :: ExecutionStatus where "ExecutionStatusFailed = ''failed''"
definition ExecutionStatusCancelled :: ExecutionStatus where "ExecutionStatusCancelled = ''cancelled''"
definition ExecutionStatusTimeout :: ExecutionStatus where "ExecutionStatusTimeout = ''timeout''"
definition ExecutionStatusArchived :: ExecutionStatus where "ExecutionStatusArchived = ''archived''"

definition workflowTransitions :: "(WorkflowStatus \<times> WorkflowStatus list) list" where
  "workflowTransitions =
     [(WorkflowStatusInactive, [WorkflowStatusActive, WorkflowStatusDisabled]),
      (WorkflowStatusActive, [WorkflowStatusInactive, WorkflowStatusPaused, WorkflowStatusDisabled]),
      (WorkflowStatusPaused, [WorkflowStatusActive, WorkflowStatusInactive, WorkflowStatusDisabled]),
      (WorkflowStatusDisabled, [WorkflowStatusInactive])]"

definition executionTransitions :: "(ExecutionStatus \<times> ExecutionStatus list) list" where
  "executionTransitions =
     [(ExecutionStatusPending, [ExecutionStatusRunning, ExecutionStatusCancelled]),
      (ExecutionStatusRunning,
         [ExecutionStatusCompleted, ExecutionStatusFailed, ExecutionStatusCancelled]),
      (ExecutionStatusFailed, [ExecutionStatusPending]),
      (ExecutionStatusCompleted, []),
      (ExecutionStatusCancelled, [])]"

text \<open>The loop \<open>for _, allowed := range allowedStates { if allowed == to { return nil } }\<close>.\<close>

fun allowedLoop :: "string list \<Rightarrow> string \<Rightarrow> bool" where
  "allowedLoop [] to = False"
| "allowedLoop (allowed # rest) to = (if allowed = to then True else allowedLoop rest to)"

definition ValidateWorkflowTransition :: "WorkflowStatus \<Rightarrow> WorkflowStatus \<Rightarrow> error + unit" where
  "ValidateWorkflowTransition from to =
     (case map_of workflowTransitions from of
        None \<Rightarrow> Inl (InvalidFromStatus from)
      | Some allowedStates \<Rightarrow>
          if allowedLoop allowedStates to then Inr ()
          else Inl (InvalidWorkflowTransition from to))"

definition ValidateExecutionTransition :: "ExecutionStatus \<Rightarrow> ExecutionStatus \<Rightarrow> error + unit" where
  "ValidateExecutionTransition from to =
     (case map_of executionTransitions from of
        None \<Rightarrow> Inl (InvalidFromStatus from)
      | Some allowedStates \<Rightarrow>
          if allowedLoop allowedStates to then Inr ()
          else Inl (InvalidExecutionTransition from to))"

text \<open>The tables as the specification writes them, as sets of pairs.\<close>

definition workflow_table :: "(string \<times> string) set" where
  "workflow_table =
     {(''inactive'', ''active''), (''inactive'', ''disabled''),
      (''active'', ''inactive''), (''active'', ''paused''), (''active'', ''disabled''),
      (''paused'', ''active''), (''paused'', ''inactive''), (''paused'', ''disabled''),
      (''disabled'', ''inactive'')}"

definition execution_table :: "(string \<times> string) set" where
  "execution_table =
     {(''pending'', ''running''), (''pending'', ''cancelled''),
      (''running'', ''completed''), (''running'', ''failed''), (''running'', ''cancelled''),
      (''failed'', ''pending'')}"


section \<open>Edges and the condition evaluator (service/models/edge.go)\<close>

text \<open>
  A value of Go's \<open>interface{}\<close> found in the variables map. The evaluator distinguishes
  the dynamic types \<open>int\<close> and \<open>float64\<close> from everything else (strings, booleans, nil,
  \<open>int64\<close>, slices, maps, ...). A \<open>float64\<close> is a finite rational, an infinity or NaN.
\<close>

datatype float64 = Finite rat | PosInf | NegInf | NaN

datatype go_value =
    IntV go_int
  | Float64V float64
  | StringV string
  | BoolV bool
  | NilV
  | OtherV

text \<open>
  The conversion \<open>int(f)\<close> discards the fraction. Where the truncated value does not fit
  (or \<open>f\<close> is NaN or infinite) Go leaves the result to the implementation; the model
  returns \<open>MinInt64\<close>, as amd64 does.
\<close>

definition truncate_rat :: "rat \<Rightarrow> int" where
  "truncate_rat q = (if 0 \<le> q then \<lfloor>q\<rfloor> else \<lceil>q\<rceil>)"

definition MinInt64 :: go_int where "MinInt64 = word_of_int (- (2 ^ 63))"

definition float64_to_int :: "float64 \<Rightarrow> go_int" where
  "float64_to_int f =
     (case f of
        Finite q \<Rightarrow>
          if - (2 ^ 63) \<le> truncate_rat q \<and> truncate_rat q < 2 ^ 63
          then word_of_int (truncate_rat q) else MinInt64
      | _ \<Rightarrow> MinInt64)"

text \<open>
  \<open>strings.Fields\<close> splits a string around runs of white space as \<open>unicode.IsSpace\<close>
  defines it. Go strings are byte sequences in UTF-8; the white-space code points are
  listed here by their encodings (U+0009..U+000D, U+0020, U+0085, U+00A0, U+1680,
  U+2000..U+200A, U+2028, U+2029, U+202F, U+205F, U+3000).
\<close>

definition spaceSeqs :: "string list" where
  "spaceSeqs =
     [[CHR 0x09], [CHR 0x0A], [CHR 0x0B], [CHR 0x0C], [CHR 0x0D], [CHR 0x20],
      [CHR 0xC2, CHR 0x85], [CHR 0xC2, CHR 0xA0],
      [CHR 0xE1, CHR 0x9A, CHR 0x80],
      [CHR 0xE2, CHR 0x80, CHR 0x80], [CHR 0xE2, CHR 0x80, CHR 0x81],
      [CHR 0xE2, CHR 0x80, CHR 0x82], [CHR 0xE2, CHR 0x80, CHR 0x83],
      [CHR 0xE2, CHR 0x80, CHR 0x84], [CHR 0xE2, CHR 0x80, CHR 0x85],
      [CHR 0xE2, CHR 0x80, CHR 0x86], [CHR 0xE2, CHR 0x80, CHR 0x87],
      [CHR 0xE2, CHR 0x80, CHR 0x88], [CHR 0xE2, CHR 0x80, CHR 0x89],
      [CHR 0xE2, CHR 0x80, CHR 0x8A],
      [CHR 0xE2, CHR 0x80, CHR 0xA8], [CHR 0xE2, CHR 0x80, CHR 0xA9],
      [CHR 0xE2, CHR 0x80, CHR 0xAF], [CHR 0xE2, CHR 0x81, CHR 0x9F],
      [CHR 0xE3, CHR 0x80, CHR 0x80]]"

text \<open>The number of bytes of the white-space code point a string starts with, or 0.\<close>

definition spaceWidth :: "string \<Rightarrow> nat" where
  "spaceWidth s =
     (case List.find (\<lambda>p. take (length p) s = p) spaceSeqs of
        None \<Rightarrow> 0
      | Some p \<Rightarrow> length p)"

definition flushField :: "string \<Rightarrow> string list" where
  "flushField cur = (if cur = [] then [] else [cur])"

fun FieldsFrom :: "string \<Rightarrow> string \<Rightarrow> string list" where
  "FieldsFrom cur [] = flushField cur"
| "FieldsFrom cur (c # cs) =
     (if spaceWidth (c # cs) = 0 then FieldsFrom (cur @ [c]) cs
      else flushField cur @ FieldsFrom [] (drop (spaceWidth (c # cs) - 1) cs))"

definition Fields :: "string \<Rightarrow> string list" where
  "Fields s = FieldsFrom [] s"

text \<open>
  \<open>fmt.Sscanf(valueStr, "%d", &targetNum)\<close> on a token without white space: an optional
  sign, then the longest run of decimal digits, which must not be empty and must denote
  a value of the \<open>int\<close> range; input after the digits is left unread and is no error.
\<close>

definition isDigit :: "char \<Rightarrow> bool" where
  "isDigit c = (c \<in> set ''0123456789'')"

definition digitsValue :: "string \<Rightarrow> int" where
  "digitsValue ds = foldl (\<lambda>a c. 10 * a + (int (of_char c) - 48)) 0 ds"

definition Sscanf_d :: "string \<Rightarrow> go_int option" where
  "Sscanf_d s =
     (let (sgn, rest) =
            (case s of
               [] \<Rightarrow> (1, [])
             | c # cs \<Rightarrow>
                 if c = CHR ''+'' then (1, cs)
                 else if c = CHR ''-'' then (- 1, cs)
                 else (1, s));
          ds = takeWhile isDigit rest;
          v = sgn * digitsValue ds
      in if ds = [] then None
         else if - (2 ^ 63) \<le> v \<and> v < 2 ^ 63 then Some (word_of_int v)
         else None)"

record EdgeCondition =
  cond_Expression :: string
  cond_Type :: string
  cond_DefaultValue :: bool
  cond_Enabled :: bool

record EdgeConfig =
  ecfg_Condition :: "EdgeCondition option"
  ecfg_Enabled :: bool

record Edge =
  edge_ID :: string
  edge_FromNodeID :: string
  edge_ToNodeID :: string
  edge_Type :: string
  edge_Status :: string
  edge_Config :: "EdgeConfig option"

definition EdgeTypeConditional :: string where "EdgeTypeConditional = ''conditional''"
definition EdgeStatusDisabled :: string where "EdgeStatusDisabled = ''disabled''"

definition IsConditional :: "'a Edge_scheme \<Rightarrow> bool" where
  "IsConditional e = (edge_Type e = EdgeTypeConditional)"

definition IsEnabled :: "'a Edge_scheme \<Rightarrow> bool" where
  "IsEnabled e =
     (if edge_Status e = EdgeStatusDisabled then False
      else case edge_Config e of Some c \<Rightarrow> ecfg_Enabled c | None \<Rightarrow> True)"

text \<open>The type switch \<open>contextValue.(int)\<close>, then \<open>contextValue.(float64)\<close>.\<close>

definition contextNumOf :: "go_value \<Rightarrow> go_int option" where
  "contextNumOf v =
     (case v of IntV n \<Rightarrow> Some n | Float64V f \<Rightarrow> Some (float64_to_int f) | _ \<Rightarrow> None)"

definition compareOp :: "string \<Rightarrow> go_int \<Rightarrow> go_int \<Rightarrow> error + bool" where
  "compareOp operator contextNum targetNum =
     (if operator = ''>'' then Inr (targetNum <s contextNum)
      else if operator = ''>='' then Inr (targetNum \<le>s contextNum)
      else if operator = ''<'' then Inr (contextNum <s targetNum)
      else if operator = ''<='' then Inr (contextNum \<le>s targetNum)
      else if operator = ''=='' \<or> operator = ''='' then Inr (contextNum = targetNum)
      else if operator = ''!='' then Inr (contextNum \<noteq> targetNum)
      else Inl (UnsupportedOperator operator))"

text \<open>
  Go returns the pair \<open>(bool, error)\<close>; every error return of the evaluator carries
  \<open>false\<close>, so the result is \<open>Inl err\<close> or \<open>Inr b\<close>.
\<close>

definition evaluateSimpleCondition :: "string \<Rightarrow> (string \<rightharpoonup> go_value) \<Rightarrow> error + bool" where
  "evaluateSimpleCondition expr context =
     (if expr = ''true'' then Inr True
      else if expr = ''false'' then Inr False
      else case Fields expr of
        [field, operator, valueStr] \<Rightarrow>
          (case context field of
             None \<Rightarrow> Inr False
           | Some contextValue \<Rightarrow>
               (case contextNumOf contextValue of
                  None \<Rightarrow> Inl NonNumericValue
                | Some contextNum \<Rightarrow>
                    (case Sscanf_d valueStr of
                       None \<Rightarrow> Inl (InvalidTargetValue valueStr)
                     | Some targetNum \<Rightarrow> compareOp operator contextNum targetNum)))
      | _ \<Rightarrow> Inl (InvalidExpressionFormat expr))"

definition EvaluateCondition :: "'a Edge_scheme \<Rightarrow> (string \<rightharpoonup> go_value) \<Rightarrow> error + bool" where
  "EvaluateCondition e context =
     (if \<not> IsConditional e then Inr True
      else case edge_Config e of
        None \<Rightarrow> Inl MissingConditionConfig
      | Some cfg \<Rightarrow>
          (case ecfg_Condition cfg of
             None \<Rightarrow> Inl MissingConditionConfig
           | Some condition \<Rightarrow>
               if \<not> cond_Enabled condition then Inr (cond_DefaultValue condition)
               else if cond_Type condition = ''simple''
                 then evaluateSimpleCondition (cond_Expression condition) context
               else Inr (cond_DefaultValue condition)))"


section \<open>Nodes and workflows (service/models/node.go, workflow.go)\<close>

text \<open>
  The records list the fields that the modelled functions read or write. Pointers that
  may be nil (\<open>*NodeConfig\<close>, \<open>*WorkflowSchedule\<close>, ...) and maps and slices that may be
  nil are options; \<open>None\<close> is nil.
\<close>

record TimeoutConfig =
  tcfg_ExecutionTimeout :: Duration

record NodeConfig =
  ncfg_TimeoutConfig :: "TimeoutConfig option"

record Node =
  node_ID :: string
  node_Plugin :: string
  node_Config :: "NodeConfig option"

definition GetExecutionTimeout :: "'a Node_scheme \<Rightarrow> Duration" where
  "GetExecutionTimeout n =
     (case node_Config n of
        None \<Rightarrow> 5 * Minute
      | Some cfg \<Rightarrow>
          (case ncfg_TimeoutConfig cfg of
             None \<Rightarrow> 5 * Minute
           | Some tc \<Rightarrow>
               if 0 <s tcfg_ExecutionTimeout tc then tcfg_ExecutionTimeout tc
               else 5 * Minute))"

record WorkflowSchedule =
  sched_Type :: string
  sched_CronExpression :: string
  sched_Interval :: Duration
  sched_ExecuteAt :: "Time option"
  sched_Enabled :: bool
  sched_StartTime :: "Time option"
  sched_EndTime :: "Time option"

definition ScheduleTypeCron :: string where "ScheduleTypeCron = ''cron''"
definition ScheduleTypeInterval :: string where "ScheduleTypeInterval = ''interval''"
definition ScheduleTypeOnce :: string where "ScheduleTypeOnce = ''once''"
definition ScheduleTypeManual :: string where "ScheduleTypeManual = ''manual''"

record WorkflowConfig =
  wcfg_Timeout :: Duration
  wcfg_MaxRetries :: go_int
  wcfg_MaxConcurrency :: go_int

text \<open>
  \<open>SuccessRate\<close> is a \<open>float64\<close> quotient and is left out of the record; no modelled
  function reads it.
\<close>

record WorkflowStatistics =
  stat_TotalExecutions :: go_int
  stat_SuccessfulRuns :: go_int
  stat_FailedRuns :: go_int
  stat_AverageExecTime :: Duration
  stat_LastExecutionTime :: "Time option"

record Workflow =
  wf_ID :: string
  wf_Name :: string
  wf_Description :: string
  wf_Version :: string
  wf_Nodes :: "(string \<rightharpoonup> Node) option"
  wf_Edges :: "Edge list option"
  wf_Schedule :: "WorkflowSchedule option"
  wf_Config :: "WorkflowConfig option"
  wf_Status :: WorkflowStatus
  wf_Statistics :: "WorkflowStatistics option"
  wf_TagsList :: "string list option"
  wf_Priority :: go_int
  wf_UpdatedAt :: Time

definition WorkflowStatus_IsValid :: "WorkflowStatus \<Rightarrow> bool" where
  "WorkflowStatus_IsValid s =
     (s = WorkflowStatusInactive \<or> s = WorkflowStatusActive \<or> s = WorkflowStatusPaused
      \<or> s = WorkflowStatusDisabled)"

definition ValidateForUpdate :: "Workflow \<Rightarrow> error + unit" where
  "ValidateForUpdate w =
     (if wf_Name w = [] then Inl WorkflowNameRequired
      else if wf_Version w = [] then Inl WorkflowVersionRequired
      else if \<not> WorkflowStatus_IsValid (wf_Status w) then Inl InvalidWorkflowStatus
      else Inr ())"

definition IsActive :: "Workflow \<Rightarrow> bool" where
  "IsActive w = (wf_Status w = WorkflowStatusActive)"

definition CanExecute :: "Workflow \<Rightarrow> bool" where
  "CanExecute w =
     (wf_Status w = WorkflowStatusActive \<and>
      (case wf_Schedule w of None \<Rightarrow> False | Some s \<Rightarrow> sched_Enabled s))"

definition emptyStatistics :: WorkflowStatistics where
  "emptyStatistics =
     \<lparr>stat_TotalExecutions = 0, stat_SuccessfulRuns = 0, stat_FailedRuns = 0,
      stat_AverageExecTime = 0, stat_LastExecutionTime = None\<rparr>"

text \<open>
  \<open>Workflow.UpdateStatistics\<close>. The counters are \<open>int64\<close> and wrap; the quotient is Go's
  integer division, which panics when the divisor is 0 (a total that was -1 before the
  increment).
\<close>

definition UpdateStatistics :: "Time \<Rightarrow> Duration \<Rightarrow> bool \<Rightarrow> Workflow \<Rightarrow> error + Workflow" where
  "UpdateStatistics now execTime success w =
     (let s0 = (case wf_Statistics w of None \<Rightarrow> emptyStatistics | Some s \<Rightarrow> s);
          s1 = s0\<lparr>stat_TotalExecutions := stat_TotalExecutions s0 + 1\<rparr>;
          s2 = (if success then s1\<lparr>stat_SuccessfulRuns := stat_SuccessfulRuns s1 + 1\<rparr>
                else s1\<lparr>stat_FailedRuns := stat_FailedRuns s1 + 1\<rparr>);
          total = stat_TotalExecutions s2
      in if total = 1
         then Inr (w\<lparr>wf_Statistics :=
                Some (s2\<lparr>stat_AverageExecTime := execTime,
                         stat_LastExecutionTime := Some now\<rparr>)\<rparr>)
         else if total = 0 then Inl PanicDivideByZero
         else Inr (w\<lparr>wf_Statistics :=
                Some (s2\<lparr>stat_AverageExecTime :=
                           go_div (stat_AverageExecTime s2 * (total - 1) + execTime) total,
                         stat_LastExecutionTime := Some now\<rparr>)\<rparr>))"

text \<open>
  The timeout that \<open>executeNode\<close> passes to \<open>context.WithTimeout\<close> for the plugin call.
  The execution context (with the workflow and its config) is an argument of
  \<open>executeNode\<close>, as in the source.
\<close>

definition executeNode_timeout :: "Workflow \<Rightarrow> 'a Node_scheme \<Rightarrow> Duration" where
  "executeNode_timeout workflow node =
     (let timeout = GetExecutionTimeout node
      in if timeout = 0 then 30 * Second else timeout)"

section \<open>Executions (service/models/execution.go)\<close>

record Execution =
  exec_ID :: string
  exec_WorkflowID :: string
  exec_WorkflowVer :: string
  exec_Status :: ExecutionStatus
  exec_StartedAt :: "Time option"
  exec_CompletedAt :: "Time option"
  exec_RetryCount :: go_int
  exec_MaxRetries :: go_int
  exec_ErrorMsg :: string
  exec_ErrorCode :: string
  exec_StackTrace :: string
  exec_UpdatedAt :: Time

definition ExecutionStatus_IsValid :: "ExecutionStatus \<Rightarrow> bool" where
  "ExecutionStatus_IsValid s =
     (s = ExecutionStatusPending \<or> s = ExecutionStatusRunning \<or> s = ExecutionStatusCompleted
      \<or> s = ExecutionStatusFailed \<or> s = ExecutionStatusCancelled \<or> s = ExecutionStatusTimeout
      \<or> s = ExecutionStatusArchived)"

definition IsFinished :: "ExecutionStatus \<Rightarrow> bool" where
  "IsFinished s =
     (s = ExecutionStatusCompleted \<or> s = ExecutionStatusFailed \<or>
      s = ExecutionStatusCancelled \<or> s = ExecutionStatusTimeout)"

definition Execution_Validate :: "'a Execution_scheme \<Rightarrow> error + unit" where
  "Execution_Validate e =
     (if exec_WorkflowID e = [] then Inl ExecWorkflowIdRequired
      else if exec_WorkflowVer e = [] then Inl ExecWorkflowVersionRequired
      else if \<not> ExecutionStatus_IsValid (exec_Status e) then Inl InvalidExecutionStatus
      else if exec_RetryCount e <s 0 then Inl RetryCountNegative
      else if exec_MaxRetries e <s 0 then Inl MaxRetriesNegative
      else Inr ())"

definition CanRetry :: "'a Execution_scheme \<Rightarrow> bool" where
  "CanRetry e =
     (exec_Status e = ExecutionStatusFailed \<and> exec_RetryCount e <s exec_MaxRetries e)"

definition Cancel :: "Time \<Rightarrow> 'a Execution_scheme \<Rightarrow> error + 'a Execution_scheme" where
  "Cancel now e =
     (if IsFinished (exec_Status e) then Inl ExecutionAlreadyFinished
      else Inr (e\<lparr>exec_Status := ExecutionStatusCancelled, exec_CompletedAt := Some now\<rparr>))"

definition Retry :: "'a Execution_scheme \<Rightarrow> error + 'a Execution_scheme" where
  "Retry e =
     (if \<not> CanRetry e then Inl ExecutionCannotBeRetried
      else Inr (e\<lparr>exec_RetryCount := exec_RetryCount e + 1,
                  exec_Status := ExecutionStatusPending,
                  exec_StartedAt := None,
                  exec_CompletedAt := None,
                  exec_ErrorMsg := [],
                  exec_ErrorCode := [],
                  exec_StackTrace := []\<rparr>))"

section \<open>Service state\<close>

text \<open>
  The store holds the rows of the two tables by primary key. A row holds the
  deserialised struct; \<open>Save\<close> writes the row at the struct's id, and its failure
  (a driver error) is the argument \<open>save_ok = False\<close> of the operation. The state
  manager's transition log and the engine's map of live executions complete the state.
  A live execution's context is reduced to its cancellation flag; \<open>st_engine = None\<close>
  is a service built with a nil engine.
\<close>

record StateTransition =
  tr_EntityType :: string
  tr_EntityID :: string
  tr_FromStatus :: string
  tr_ToStatus :: string
  tr_Reason :: string
  tr_Operator :: string
  tr_Timestamp :: Time

record EngineExecutionContext =
  ectx_WorkflowID :: string
  ectx_cancelled :: bool

type_synonym EngineExecutions = "string \<rightharpoonup> EngineExecutionContext"

record ServiceState =
  st_workflows :: "string \<rightharpoonup> Workflow"
  st_executions :: "string \<rightharpoonup> Execution"
  st_transitionHistory :: "StateTransition list"
  st_engine :: "EngineExecutions option"

definition RecordWorkflowTransition ::
  "Time \<Rightarrow> ServiceState \<Rightarrow> string \<Rightarrow> WorkflowStatus \<Rightarrow> WorkflowStatus \<Rightarrow> string \<Rightarrow> string
     \<Rightarrow> error option \<times> ServiceState" where
  "RecordWorkflowTransition now st workflowID from to reason operator =
     (case ValidateWorkflowTransition from to of
        Inl err \<Rightarrow> (Some err, st)
      | Inr _ \<Rightarrow>
          (None, st\<lparr>st_transitionHistory := st_transitionHistory st @
             [\<lparr>tr_EntityType = ''workflow'', tr_EntityID = workflowID, tr_FromStatus = from,
               tr_ToStatus = to, tr_Reason = reason, tr_Operator = operator,
               tr_Timestamp = now\<rparr>]\<rparr>))"

definition RecordExecutionTransition ::
  "Time \<Rightarrow> ServiceState \<Rightarrow> string \<Rightarrow> ExecutionStatus \<Rightarrow> ExecutionStatus \<Rightarrow> string \<Rightarrow> string
     \<Rightarrow> error option \<times> ServiceState" where
  "RecordExecutionTransition now st executionID from to reason operator =
     (case ValidateExecutionTransition from to of
        Inl err \<Rightarrow> (Some err, st)
      | Inr _ \<Rightarrow>
          (None, st\<lparr>st_transitionHistory := st_transitionHistory st @
             [\<lparr>tr_EntityType = ''execution'', tr_EntityID = executionID, tr_FromStatus = from,
               tr_ToStatus = to, tr_Reason = reason, tr_Operator = operator,
               tr_Timestamp = now\<rparr>]\<rparr>))"

section \<open>Workflow service (service/workflow\_service.go)\<close>

text \<open>\<open>GetWorkflow\<close>: the row by id, with an empty status read as inactive.\<close>

definition GetWorkflow :: "ServiceState \<Rightarrow> string \<Rightarrow> error + Workflow" where
  "GetWorkflow st ident =
     (case st_workflows st ident of
        None \<Rightarrow> Inl (WorkflowNotFound ident)
      | Some w \<Rightarrow>
          Inr (if wf_Status w = [] then w\<lparr>wf_Status := WorkflowStatusInactive\<rparr> else w))"

definition SaveWorkflow :: "bool \<Rightarrow> ServiceState \<Rightarrow> Workflow \<Rightarrow> error + ServiceState" where
  "SaveWorkflow save_ok st w =
     (if save_ok then Inr (st\<lparr>st_workflows := (st_workflows st)(wf_ID w \<mapsto> w)\<rparr>)
      else Inl SaveFailed)"

text \<open>\<open>scheduleWorkflow\<close> is a stub in the source: every path returns nil.\<close>

definition scheduleWorkflow :: "Workflow \<Rightarrow> error option" where
  "scheduleWorkflow w =
     (case wf_Schedule w of
        None \<Rightarrow> None
      | Some s \<Rightarrow> if \<not> sched_Enabled s then None else None)"

text \<open>
  The first half of \<open>UpdateWorkflow\<close>: each field of the request that is not its zero
  value is copied over the existing workflow, in source order.
\<close>

definition copyProvidedFields :: "Workflow \<Rightarrow> Workflow \<Rightarrow> Workflow" where
  "copyProvidedFields existing workflow =
     (let e1 = (if wf_Name workflow \<noteq> [] then existing\<lparr>wf_Name := wf_Name workflow\<rparr>
                else existing);
          e2 = (if wf_Description workflow \<noteq> []
                then e1\<lparr>wf_Description := wf_Description workflow\<rparr> else e1);
          e3 = (if wf_Version workflow \<noteq> [] then e2\<lparr>wf_Version := wf_Version workflow\<rparr>
                else e2);
          e4 = (if wf_Nodes workflow \<noteq> None then e3\<lparr>wf_Nodes := wf_Nodes workflow\<rparr>
                else e3);
          e5 = (if wf_Edges workflow \<noteq> None then e4\<lparr>wf_Edges := wf_Edges workflow\<rparr>
                else e4);
          e6 = (if wf_Schedule workflow \<noteq> None
                then e5\<lparr>wf_Schedule := wf_Schedule workflow\<rparr> else e5);
          e7 = (if wf_Config workflow \<noteq> None then e6\<lparr>wf_Config := wf_Config workflow\<rparr>
                else e6);
          e8 = (if wf_TagsList workflow \<noteq> None
                then e7\<lparr>wf_TagsList := wf_TagsList workflow\<rparr> else e7)
      in if wf_Priority workflow \<noteq> 0 then e8\<lparr>wf_Priority := wf_Priority workflow\<rparr> else e8)"

text \<open>
  \<open>UpdateWorkflow\<close>: on success the new state and the workflow copied back into the
  caller's struct. Every error return precedes the write, so an error leaves the state
  as it was.
\<close>

definition UpdateWorkflow ::
  "Time \<Rightarrow> bool \<Rightarrow> ServiceState \<Rightarrow> Workflow \<Rightarrow> error + (ServiceState \<times> Workflow)" where
  "UpdateWorkflow now save_ok st workflow =
     (case GetWorkflow st (wf_ID workflow) of
        Inl err \<Rightarrow> Inl err
      | Inr existing \<Rightarrow>
          let merged = copyProvidedFields existing workflow
          in (case ValidateForUpdate merged of
                Inl err \<Rightarrow> Inl (Wrapped ''workflow validation failed'' err)
              | Inr _ \<Rightarrow>
                  let existingWorkflow = merged\<lparr>wf_UpdatedAt := now\<rparr>
                  in (case SaveWorkflow save_ok st existingWorkflow of
                        Inl err \<Rightarrow> Inl (Wrapped ''failed to update workflow'' err)
                      | Inr st' \<Rightarrow>
                          (case (if IsActive existingWorkflow \<and> CanExecute existingWorkflow
                                 then scheduleWorkflow existingWorkflow else None) of
                             Some err \<Rightarrow> Inl (Wrapped ''failed to schedule workflow'' err)
                           | None \<Rightarrow> Inr (st', existingWorkflow)))))"

text \<open>
  \<open>ActivateWorkflow\<close>. A failure to record the transition is only printed; the result
  is the error (if any) and the state left behind.
\<close>

definition ActivateWorkflow ::
  "Time \<Rightarrow> bool \<Rightarrow> ServiceState \<Rightarrow> string \<Rightarrow> error option \<times> ServiceState" where
  "ActivateWorkflow now save_ok st ident =
     (case GetWorkflow st ident of
        Inl err \<Rightarrow> (Some err, st)
      | Inr workflow \<Rightarrow>
          (case ValidateWorkflowTransition (wf_Status workflow) WorkflowStatusActive of
             Inl err \<Rightarrow> (Some (Wrapped ''invalid state transition'' err), st)
           | Inr _ \<Rightarrow>
               let oldStatus = wf_Status workflow;
                   workflow' = workflow\<lparr>wf_Status := WorkflowStatusActive, wf_UpdatedAt := now\<rparr>
               in (case SaveWorkflow save_ok st workflow' of
                     Inl err \<Rightarrow> (Some (Wrapped ''failed to activate workflow'' err), st)
                   | Inr st1 \<Rightarrow>
                       let st2 = snd (RecordWorkflowTransition now st1 ident oldStatus
                                        WorkflowStatusActive ''manually activated'' ''system'')
                       in (case (if CanExecute workflow' then scheduleWorkflow workflow'
                                 else None) of
                             Some err \<Rightarrow> (Some (Wrapped ''failed to schedule workflow'' err), st2)
                           | None \<Rightarrow> (None, st2)))))"

section \<open>Engine and execution service (workflow\_engine.go, execution\_service.go)\<close>

text \<open>
  \<open>WorkflowEngine.CancelExecution\<close>: looks the id up among the live executions and calls
  the context's cancel function, which sets the flag and is harmless when repeated.
\<close>

definition Engine_CancelExecution :: "EngineExecutions \<Rightarrow> string \<Rightarrow> error + EngineExecutions" where
  "Engine_CancelExecution executions executionID =
     (case executions executionID of
        None \<Rightarrow> Inl (EngineExecutionNotFound executionID)
      | Some execCtx \<Rightarrow> Inr (executions(executionID \<mapsto> execCtx\<lparr>ectx_cancelled := True\<rparr>)))"

text \<open>\<open>GetExecution\<close>: the row by id, with an empty status read as pending.\<close>

definition GetExecution :: "ServiceState \<Rightarrow> string \<Rightarrow> error + Execution" where
  "GetExecution st ident =
     (case st_executions st ident of
        None \<Rightarrow> Inl (ExecutionNotFound ident)
      | Some e \<Rightarrow>
          Inr (if exec_Status e = [] then e\<lparr>exec_Status := ExecutionStatusPending\<rparr> else e))"

definition UpdateExecution ::
  "Time \<Rightarrow> bool \<Rightarrow> ServiceState \<Rightarrow> Execution \<Rightarrow> error option \<times> ServiceState" where
  "UpdateExecution now save_ok st execution =
     (case Execution_Validate execution of
        Inl err \<Rightarrow> (Some (Wrapped ''execution validation failed'' err), st)
      | Inr _ \<Rightarrow>
          let execution' = execution\<lparr>exec_UpdatedAt := now\<rparr>
          in if save_ok
             then (None, st\<lparr>st_executions := (st_executions st)(exec_ID execution' \<mapsto> execution')\<rparr>)
             else (Some (Wrapped ''failed to update execution'' SaveFailed), st))"

definition ExecutionService_CancelExecution ::
  "Time \<Rightarrow> bool \<Rightarrow> ServiceState \<Rightarrow> string \<Rightarrow> error option \<times> ServiceState" where
  "ExecutionService_CancelExecution now save_ok st ident =
     (case GetExecution st ident of
        Inl err \<Rightarrow> (Some err, st)
      | Inr execution \<Rightarrow>
          (case ValidateExecutionTransition (exec_Status execution) ExecutionStatusCancelled of
             Inl err \<Rightarrow> (Some (Wrapped ''invalid state transition'' err), st)
           | Inr _ \<Rightarrow>
               let oldStatus = exec_Status execution
               in (case Cancel now execution of
                     Inl err \<Rightarrow> (Some (Wrapped ''failed to cancel execution'' err), st)
                   | Inr execution' \<Rightarrow>
                       let st1 = snd (RecordExecutionTransition now st ident oldStatus
                                        ExecutionStatusCancelled ''execution cancelled'' ''system'');
                           st2 = (case st_engine st1 of
                                    None \<Rightarrow> st1
                                  | Some executions \<Rightarrow>
                                      (case Engine_CancelExecution executions ident of
                                         Inl _ \<Rightarrow> st1
                                       | Inr executions' \<Rightarrow>
                                           st1\<lparr>st_engine := Some executions'\<rparr>))
                       in UpdateExecution now save_ok st2 execution')))"

section \<open>Scheduler (service/simple\_scheduler.go)\<close>

record ScheduledTask =
  task_ID :: string
  task_WorkflowID :: string
  task_Schedule :: "WorkflowSchedule option"
  task_NextRun :: Time
  task_LastRun :: "Time option"
  task_RunCount :: go_int
  task_Enabled :: bool

text \<open>The \<open>switch task.Schedule.Type\<close> of \<open>calculateNextRun\<close>.\<close>

definition nextRunOfType :: "Time \<Rightarrow> WorkflowSchedule \<Rightarrow> error + Time" where
  "nextRunOfType now schedule =
     (if sched_Type schedule = ScheduleTypeCron then
        (if sched_CronExpression schedule = [] then Inl CronExpressionEmpty
         else Inr (Add now Hour))
      else if sched_Type schedule = ScheduleTypeInterval then
        (if sched_Interval schedule \<le>s 0 then Inl IntervalMustBePositive
         else Inr (Add now (sched_Interval schedule)))
      else if sched_Type schedule = ScheduleTypeOnce then
        (case sched_ExecuteAt schedule of
           None \<Rightarrow> Inl ExecuteAtRequired
         | Some t \<Rightarrow> Inr t)
      else if sched_Type schedule = ScheduleTypeManual then Inr zeroTime
      else Inl (UnsupportedScheduleType (sched_Type schedule)))"

definition calculateNextRun :: "Time \<Rightarrow> ScheduledTask \<Rightarrow> error + ScheduledTask" where
  "calculateNextRun now task =
     (case task_Schedule task of
        None \<Rightarrow> Inl ScheduleIsNil
      | Some schedule \<Rightarrow>
          (case nextRunOfType now schedule of
             Inl err \<Rightarrow> Inl err
           | Inr nextRun0 \<Rightarrow>
               let nextRun =
                     (case sched_StartTime schedule of
                        Some startTime \<Rightarrow> if nextRun0 < startTime then startTime else nextRun0
                      | None \<Rightarrow> nextRun0)
               in (case sched_EndTime schedule of
                     Some endTime \<Rightarrow>
                       if endTime < nextRun then Inr (task\<lparr>task_Enabled := False\<rparr>)
                       else Inr (task\<lparr>task_NextRun := nextRun\<rparr>)
                   | None \<Rightarrow> Inr (task\<lparr>task_NextRun := nextRun\<rparr>))))"

text \<open>
  The filter of \<open>checkAndTriggerTasks\<close>: the tasks a tick at \<open>now\<close> hands to
  \<open>triggerTask\<close>.
\<close>

definition isDue :: "Time \<Rightarrow> ScheduledTask \<Rightarrow> bool" where
  "isDue now task = (task_Enabled task \<and> task_NextRun task < now)"

text \<open>
  \<open>triggerTask\<close>: the task after the call, and whether the call reached the trigger of
  the workflow execution (it returns before it when \<open>calculateNextRun\<close> fails).
\<close>

definition triggerTask :: "Time \<Rightarrow> ScheduledTask \<Rightarrow> ScheduledTask \<times> bool" where
  "triggerTask now task =
     (let task1 = task\<lparr>task_LastRun := Some now, task_RunCount := task_RunCount task + 1\<rparr>
      in case calculateNextRun now task1 of
           Inl err \<Rightarrow> (task1, False)
         | Inr task2 \<Rightarrow> (task2, True))"

text \<open>
  One tick of \<open>checkAndTriggerTasks\<close> seen from a single task: the task is handed to
  \<open>triggerTask\<close> when the filter selects it and is left alone otherwise.
\<close>

definition tickTask :: "Time \<Rightarrow> ScheduledTask \<Rightarrow> ScheduledTask \<times> bool" where
  "tickTask now task = (if isDue now task then triggerTask now task else (task, False))"

section \<open>The specification's formulas\<close>

text \<open>The timeout a node's configuration asks for, if it has one.\<close>

definition configuredTimeout :: "'a Node_scheme \<Rightarrow> Duration option" where
  "configuredTimeout n =
     (case node_Config n of
        None \<Rightarrow> None
      | Some cfg \<Rightarrow> map_option tcfg_ExecutionTimeout (ncfg_TimeoutConfig cfg))"

text \<open>
  The node timeout as the specification states it: the minimum of the node's configured
  timeout, the workflow config's timeout and the engine default of 30 seconds (a bound
  that is not configured does not lower the minimum).
\<close>

definition spec_timeout :: "Workflow \<Rightarrow> 'a Node_scheme \<Rightarrow> int" where
  "spec_timeout workflow node =
     min (case configuredTimeout node of None \<Rightarrow> sint (30 * Second) | Some t \<Rightarrow> sint t)
       (min (case wf_Config workflow of
               None \<Rightarrow> sint (30 * Second)
             | Some c \<Rightarrow> sint (wcfg_Timeout c))
          (sint (30 * Second)))"

text \<open>
  The moving average as the specification states it, an identity of exact (rational)
  arithmetic: \<open>avgNew = (avgOld * (n - 1) + d) / n\<close>.
\<close>

definition moving_average_exact :: "int \<Rightarrow> int \<Rightarrow> int \<Rightarrow> int \<Rightarrow> bool" where
  "moving_average_exact n avgOld d avgNew =
     ((of_int avgNew :: rat) = (of_int avgOld * (of_int n - 1) + of_int d) / of_int n)"

text \<open>
  The expression of a conditional edge whose condition is enabled and of type
  \<open>simple\<close>: the edges whose evaluation reaches \<open>evaluateSimpleCondition\<close>.
\<close>

definition enabledSimpleExpr :: "'a Edge_scheme \<Rightarrow> string option" where
  "enabledSimpleExpr e =
     (if IsConditional e then
        (case edge_Config e of
           None \<Rightarrow> None
         | Some cfg \<Rightarrow>
             (case ecfg_Condition cfg of
                None \<Rightarrow> None
              | Some c \<Rightarrow>
                  if cond_Enabled c \<and> cond_Type c = ''simple'' then Some (cond_Expression c)
                  else None))
      else None)"

text \<open>The comparison on the integers that an operator token denotes.\<close>

definition int_compare :: "string \<Rightarrow> int \<Rightarrow> int \<Rightarrow> bool" where
  "int_compare op a b =
     (if op = ''>'' then b < a
      else if op = ''>='' then b \<le> a
      else if op = ''<'' then a < b
      else if op = ''<='' then a \<le> b
      else if op = ''=='' \<or> op = ''='' then a = b
      else a \<noteq> b)"

definition comparison_ops :: "string set" where
  "comparison_ops = {''>'', ''>='', ''<'', ''<='', ''=='', ''='', ''!=''}"

text \<open>
  The time window as the specification states it, applied to a next-run time: clamp up
  to the start time, then disable the task when the result is past the end time and
  store it as the task's next run otherwise.
\<close>

definition spec_window :: "WorkflowSchedule \<Rightarrow> Time \<Rightarrow> ScheduledTask \<Rightarrow> ScheduledTask" where
  "spec_window s nextRun task =
     (let clamped = (case sched_StartTime s of None \<Rightarrow> nextRun | Some startTime \<Rightarrow> max nextRun startTime)
      in case sched_EndTime s of
           None \<Rightarrow> task\<lparr>task_NextRun := clamped\<rparr>
         | Some endTime \<Rightarrow>
             if endTime < clamped then task\<lparr>task_Enabled := False\<rparr>
             else task\<lparr>task_NextRun := clamped\<rparr>)"

text \<open>
  The stored row of the request's id after a call of \<open>UpdateWorkflow\<close>, whether the call
  succeeded or not.
\<close>

definition storedAfterUpdate :: "Time \<Rightarrow> bool \<Rightarrow> ServiceState \<Rightarrow> Workflow \<Rightarrow> Workflow option" where
  "storedAfterUpdate now save_ok st request =
     (case UpdateWorkflow now save_ok st request of
        Inl _ \<Rightarrow> st_workflows st (wf_ID request)
      | Inr (st', _) \<Rightarrow> st_workflows st' (wf_ID request))"

text \<open>
  Graph validation as the specification states it: every edge joins existing nodes, the
  enabled edges form no cycle, and every conditional edge carries an expression.
\<close>

definition edgesOf :: "Workflow \<Rightarrow> Edge list" where
  "edgesOf w = (case wf_Edges w of None \<Rightarrow> [] | Some es \<Rightarrow> es)"

definition nodeIds :: "Workflow \<Rightarrow> string set" where
  "nodeIds w = (case wf_Nodes w of None \<Rightarrow> {} | Some nodes \<Rightarrow> dom nodes)"

definition enabledEdgePairs :: "Workflow \<Rightarrow> (string \<times> string) set" where
  "enabledEdgePairs w =
     set (map (\<lambda>e. (edge_FromNodeID e, edge_ToNodeID e)) (filter IsEnabled (edgesOf w)))"

definition hasConditionExpression :: "Edge \<Rightarrow> bool" where
  "hasConditionExpression e =
     (case edge_Config e of
        None \<Rightarrow> False
      | Some cfg \<Rightarrow>
          (case ecfg_Condition cfg of None \<Rightarrow> False | Some c \<Rightarrow> cond_Expression c \<noteq> []))"

definition graph_validated :: "Workflow \<Rightarrow> bool" where
  "graph_validated w =
     ((\<forall>e \<in> set (edgesOf w). edge_FromNodeID e \<in> nodeIds w \<and> edge_ToNodeID e \<in> nodeIds w) \<and>
      acyclic (enabledEdgePairs w) \<and>
      (\<forall>e \<in> set (edgesOf w). IsConditional e \<longrightarrow> hasConditionExpression e))"

section \<open>Concrete inputs\<close>

text \<open>Inputs at which the theorems below are instantiated.\<close>

definition failedExecution :: Execution where
  "failedExecution =
     \<lparr>exec_ID = ''e1'', exec_WorkflowID = ''w1'', exec_WorkflowVer = ''1.0.0'',
      exec_Status = ''failed'', exec_StartedAt = Some 5, exec_CompletedAt = Some 9,
      exec_RetryCount = 0, exec_MaxRetries = 3, exec_ErrorMsg = ''boom'',
      exec_ErrorCode = ''E1'', exec_StackTrace = ''trace'', exec_UpdatedAt = 9\<rparr>"

definition bareWorkflow :: Workflow where
  "bareWorkflow =
     \<lparr>wf_ID = ''w1'', wf_Name = ''demo'', wf_Description = ''first'', wf_Version = ''1.0.0'',
      wf_Nodes = None, wf_Edges = None, wf_Schedule = None, wf_Config = None,
      wf_Status = ''inactive'', wf_Statistics = None, wf_TagsList = None, wf_Priority = 5,
      wf_UpdatedAt = 0\<rparr>"

definition node60 :: Node where
  "node60 = \<lparr>node_ID = ''n1'', node_Plugin = ''static'',
      node_Config = Some \<lparr>ncfg_TimeoutConfig = Some \<lparr>tcfg_ExecutionTimeout = 60 * Second\<rparr>\<rparr>\<rparr>"

definition workflow120 :: Workflow where
  "workflow120 = bareWorkflow\<lparr>wf_Config :=
      Some \<lparr>wcfg_Timeout = 120 * Second, wcfg_MaxRetries = 3, wcfg_MaxConcurrency = 1\<rparr>\<rparr>"

definition statsOnce :: WorkflowStatistics where
  "statsOnce = \<lparr>stat_TotalExecutions = 1, stat_SuccessfulRuns = 1, stat_FailedRuns = 0,
      stat_AverageExecTime = 1, stat_LastExecutionTime = Some 0\<rparr>"

definition simpleEdge :: "string \<Rightarrow> Edge" where
  "simpleEdge expr =
     \<lparr>edge_ID = ''e1'', edge_FromNodeID = ''a'', edge_ToNodeID = ''b'',
      edge_Type = ''conditional'', edge_Status = ''active'',
      edge_Config = Some \<lparr>ecfg_Condition =
          Some \<lparr>cond_Expression = expr, cond_Type = ''simple'', cond_DefaultValue = True,
                cond_Enabled = True\<rparr>,
        ecfg_Enabled = True\<rparr>\<rparr>"

definition intervalSchedule :: "Time option \<Rightarrow> Time option \<Rightarrow> WorkflowSchedule" where
  "intervalSchedule startTime endTime =
     \<lparr>sched_Type = ''interval'', sched_CronExpression = [], sched_Interval = 10,
      sched_ExecuteAt = None, sched_Enabled = True, sched_StartTime = startTime,
      sched_EndTime = endTime\<rparr>"

definition intervalTask :: "Time option \<Rightarrow> Time option \<Rightarrow> ScheduledTask" where
  "intervalTask startTime endTime =
     \<lparr>task_ID = ''task_w1'', task_WorkflowID = ''w1'',
      task_Schedule = Some (intervalSchedule startTime endTime), task_NextRun = 90,
      task_LastRun = None, task_RunCount = 0, task_Enabled = True\<rparr>"

definition bareState :: ServiceState where
  "bareState =
     \<lparr>st_workflows = [''w1'' \<mapsto> bareWorkflow], st_executions = Map.empty,
      st_transitionHistory = [], st_engine = Some Map.empty\<rparr>"

definition renameRequest :: Workflow where
  "renameRequest =
     \<lparr>wf_ID = ''w1'', wf_Name = ''renamed'', wf_Description = [], wf_Version = [],
      wf_Nodes = None, wf_Edges = None, wf_Schedule = None, wf_Config = None,
      wf_Status = [], wf_Statistics = None, wf_TagsList = None, wf_Priority = 0,
      wf_UpdatedAt = 0\<rparr>"


definition plainNode :: "string \<Rightarrow> Node" where
  "plainNode ident = \<lparr>node_ID = ident, node_Plugin = ''static'', node_Config = None\<rparr>"

definition plainEdge :: "string \<Rightarrow> string \<Rightarrow> string \<Rightarrow> Edge" where
  "plainEdge ident from to =
     \<lparr>edge_ID = ident, edge_FromNodeID = from, edge_ToNodeID = to, edge_Type = ''normal'',
      edge_Status = ''active'', edge_Config = None\<rparr>"

definition cyclicWorkflow :: Workflow where
  "cyclicWorkflow = bareWorkflow
     \<lparr>wf_Nodes := Some [''a'' \<mapsto> plainNode ''a'', ''b'' \<mapsto> plainNode ''b''],
      wf_Edges := Some [plainEdge ''e1'' ''a'' ''b'', plainEdge ''e2'' ''b'' ''a'']\<rparr>"

definition cyclicState :: ServiceState where
  "cyclicState = bareState\<lparr>st_workflows := [''w1'' \<mapsto> cyclicWorkflow]\<rparr>"

definition completedExecution :: Execution where
  "completedExecution =
     \<lparr>exec_ID = ''e1'', exec_WorkflowID = ''w1'', exec_WorkflowVer = ''1.0.0'',
      exec_Status = ''completed'', exec_StartedAt = Some 1, exec_CompletedAt = Some 5,
      exec_RetryCount = 0, exec_MaxRetries = 3, exec_ErrorMsg = [], exec_ErrorCode = [],
      exec_StackTrace = [], exec_UpdatedAt = 5\<rparr>"

definition doneState :: ServiceState where
  "doneState = bareState\<lparr>st_executions := [''e1'' \<mapsto> completedExecution]\<rparr>"

definition runningState :: ServiceState where
  "runningState = bareState
     \<lparr>st_executions := [''e1'' \<mapsto> completedExecution\<lparr>exec_Status := ''running'',
                                                      exec_CompletedAt := None\<rparr>],
      st_engine := Some [''e1'' \<mapsto> \<lparr>ectx_WorkflowID = ''w1'', ectx_cancelled = False\<rparr>]\<rparr>"

section \<open>Theorems\<close>

lemmas status_defs =
  WorkflowStatusInactive_def WorkflowStatusActive_def WorkflowStatusPaused_def
  WorkflowStatusDisabled_def ExecutionStatusPending_def ExecutionStatusRunning_def
  ExecutionStatusCompleted_def ExecutionStatusFailed_def ExecutionStatusCancelled_def
  ExecutionStatusTimeout_def ExecutionStatusArchived_def


lemma ValidateWorkflowTransition_iff:
  "ValidateWorkflowTransition from to = Inr () \<longleftrightarrow> (from, to) \<in> workflow_table"
  by (auto simp: ValidateWorkflowTransition_def workflowTransitions_def workflow_table_def
        status_defs split: if_splits)

lemma ValidateExecutionTransition_iff:
  "ValidateExecutionTransition from to = Inr () \<longleftrightarrow> (from, to) \<in> execution_table"
  by (auto simp: ValidateExecutionTransition_def executionTransitions_def execution_table_def
        status_defs split: if_splits)

subsection \<open>State manager\<close>

text \<open>
  Claim C1. \<open>ValidateWorkflowTransition\<close> returns nil exactly for the pairs of the workflow
  table, \<open>ValidateExecutionTransition\<close> exactly for the pairs of the execution table. A
  from-status outside the tables is rejected with an error: a workflow status that is
  not a key of the map gives "invalid from status", and so do the execution statuses
  timeout and archived; completed and cancelled are keys with an empty list and give
  "invalid execution state transition". Both functions are total: there is no panic.
\<close>

theorem C1_transition_tables:
  "(ValidateWorkflowTransition from to = Inr () \<longleftrightarrow> (from, to) \<in> workflow_table) \<and>
   (ValidateExecutionTransition efrom eto = Inr () \<longleftrightarrow> (efrom, eto) \<in> execution_table) \<and>
   (from \<notin> {''inactive'', ''active'', ''paused'', ''disabled''} \<longrightarrow>
      ValidateWorkflowTransition from to = Inl (InvalidFromStatus from)) \<and>
   (efrom \<notin> {''pending'', ''running'', ''failed''} \<longrightarrow>
      ValidateExecutionTransition efrom eto = Inl (InvalidFromStatus efrom) \<or>
      ValidateExecutionTransition efrom eto = Inl (InvalidExecutionTransition efrom eto)) \<and>
   ValidateExecutionTransition ExecutionStatusTimeout eto = Inl (InvalidFromStatus ''timeout'') \<and>
   ValidateExecutionTransition ExecutionStatusArchived eto = Inl (InvalidFromStatus ''archived'')"
proof -
  have a: "ValidateWorkflowTransition from to = Inr () \<longleftrightarrow> (from, to) \<in> workflow_table"
    by (rule ValidateWorkflowTransition_iff)
  have b: "ValidateExecutionTransition efrom eto = Inr () \<longleftrightarrow> (efrom, eto) \<in> execution_table"
    by (rule ValidateExecutionTransition_iff)
  have c: "from \<notin> {''inactive'', ''active'', ''paused'', ''disabled''} \<longrightarrow>
      ValidateWorkflowTransition from to = Inl (InvalidFromStatus from)"
    by (simp add: ValidateWorkflowTransition_def workflowTransitions_def status_defs)
  have d: "efrom \<notin> {''pending'', ''running'', ''failed''} \<longrightarrow>
      ValidateExecutionTransition efrom eto = Inl (InvalidFromStatus efrom) \<or>
      ValidateExecutionTransition efrom eto = Inl (InvalidExecutionTransition efrom eto)"
    by (simp add: ValidateExecutionTransition_def executionTransitions_def status_defs)
  have e: "ValidateExecutionTransition ExecutionStatusTimeout eto = Inl (InvalidFromStatus ''timeout'')"
    by (simp add: ValidateExecutionTransition_def executionTransitions_def status_defs)
  have f: "ValidateExecutionTransition ExecutionStatusArchived eto = Inl (InvalidFromStatus ''archived'')"
    by (simp add: ValidateExecutionTransition_def executionTransitions_def status_defs)
  from a b c d e f show ?thesis by blast
qed

theorem C1_transition_tables_witness:
  "ValidateWorkflowTransition ''inactive'' ''active'' = Inr () \<and>
   ValidateExecutionTransition ''completed'' ''cancelled'' \<noteq> Inr () \<and>
   ValidateWorkflowTransition ''archived'' ''active'' = Inl (InvalidFromStatus ''archived'') \<and>
   (ValidateExecutionTransition ''completed'' ''cancelled'' = Inl (InvalidFromStatus ''completed'') \<or>
    ValidateExecutionTransition ''completed'' ''cancelled'' =
      Inl (InvalidExecutionTransition ''completed'' ''cancelled''))"
  using C1_transition_tables [of "''inactive''" "''active''" "''completed''" "''cancelled''"]
        C1_transition_tables [of "''archived''" "''active''" "''completed''" "''cancelled''"]
  by (simp add: workflow_table_def execution_table_def)

subsection \<open>Retry of an execution\<close>

lemma sint_succ:
  fixes a b :: "64 word"
  assumes "a <s b"
  shows "sint (a + 1) = sint a + 1"
proof -
  have "sint b < 2 ^ 63" using sint_lt [of b] by simp
  moreover have "- (2 ^ 63) \<le> sint a" using sint_ge [of a] by simp
  moreover have "sint a < sint b" using assms by (simp add: word_sless_alt)
  ultimately have "signed_take_bit 63 (sint a + 1) = sint a + 1"
    by (intro signed_take_bit_int_eq_self) auto
  then show ?thesis by (simp add: sint_word_ariths)
qed

text \<open>
  Claim C7. \<open>Execution.Retry\<close> succeeds exactly when the status is failed and
  \<open>RetryCount < MaxRetries\<close> (as signed 64-bit integers). On success the status is
  pending, the retry count is one more (the increment cannot wrap, since the count is
  below \<open>MaxRetries\<close>), \<open>StartedAt\<close>, \<open>CompletedAt\<close>, \<open>ErrorMsg\<close>, \<open>ErrorCode\<close> and
  \<open>StackTrace\<close> are cleared, and every other field, also those in the record's extension,
  is unchanged.
\<close>

theorem C7_retry:
  fixes e :: "'a Execution_scheme"
  shows
  "((\<exists>e'. Retry e = Inr e') \<longleftrightarrow>
      (exec_Status e = ''failed'' \<and> sint (exec_RetryCount e) < sint (exec_MaxRetries e))) \<and>
   (Retry e = Inr e' \<longrightarrow>
      e' = e\<lparr>exec_Status := ''pending'', exec_RetryCount := exec_RetryCount e + 1,
               exec_StartedAt := None, exec_CompletedAt := None, exec_ErrorMsg := [],
               exec_ErrorCode := [], exec_StackTrace := []\<rparr> \<and>
      exec_Status e' = ExecutionStatusPending \<and>
      sint (exec_RetryCount e') = sint (exec_RetryCount e) + 1 \<and>
      exec_StartedAt e' = None \<and> exec_CompletedAt e' = None \<and>
      exec_ErrorMsg e' = [] \<and> exec_ErrorCode e' = [] \<and> exec_StackTrace e' = [] \<and>
      exec_ID e' = exec_ID e \<and> exec_WorkflowID e' = exec_WorkflowID e \<and>
      exec_WorkflowVer e' = exec_WorkflowVer e \<and> exec_MaxRetries e' = exec_MaxRetries e \<and>
      exec_UpdatedAt e' = exec_UpdatedAt e \<and> Execution.more e' = Execution.more e)"
proof -
  have iff: "(\<exists>e'. Retry e = Inr e') \<longleftrightarrow>
      (exec_Status e = ''failed'' \<and> sint (exec_RetryCount e) < sint (exec_MaxRetries e))"
    by (simp add: Retry_def CanRetry_def word_sless_alt status_defs)
  have upd: "Retry e = Inr e' \<Longrightarrow>
      e' = e\<lparr>exec_Status := ''pending'', exec_RetryCount := exec_RetryCount e + 1,
               exec_StartedAt := None, exec_CompletedAt := None, exec_ErrorMsg := [],
               exec_ErrorCode := [], exec_StackTrace := []\<rparr> \<and>
      exec_RetryCount e <s exec_MaxRetries e"
    by (auto simp: Retry_def CanRetry_def status_defs split: if_splits)
  show ?thesis
  proof (intro conjI impI)
    assume r: "Retry e = Inr e'"
    from upd [OF r] have eq: "e' = e\<lparr>exec_Status := ''pending'', exec_RetryCount := exec_RetryCount e + 1,
               exec_StartedAt := None, exec_CompletedAt := None, exec_ErrorMsg := [],
               exec_ErrorCode := [], exec_StackTrace := []\<rparr>"
      and lt: "exec_RetryCount e <s exec_MaxRetries e" by simp_all
    show "e' = e\<lparr>exec_Status := ''pending'', exec_RetryCount := exec_RetryCount e + 1,
               exec_StartedAt := None, exec_CompletedAt := None, exec_ErrorMsg := [],
               exec_ErrorCode := [], exec_StackTrace := []\<rparr>" by (rule eq)
    show "sint (exec_RetryCount e') = sint (exec_RetryCount e) + 1"
      using sint_succ [OF lt] by (simp add: eq)
  qed (use iff upd in \<open>auto simp: status_defs\<close>)
qed

theorem C7_retry_witness:
  "Retry failedExecution =
     Inr (failedExecution\<lparr>exec_Status := ''pending'', exec_RetryCount := 1,
            exec_StartedAt := None, exec_CompletedAt := None, exec_ErrorMsg := [],
            exec_ErrorCode := [], exec_StackTrace := []\<rparr>)"
proof -
  have "exec_Status failedExecution = ''failed'' \<and>
        sint (exec_RetryCount failedExecution) < sint (exec_MaxRetries failedExecution)"
    by (simp add: failedExecution_def)
  with C7_retry [of failedExecution] obtain e' where r: "Retry failedExecution = Inr e'"
    by blast
  with C7_retry [of failedExecution e'] show ?thesis
    by (simp add: failedExecution_def)
qed

subsection \<open>Node timeout\<close>

lemma five_minutes: "sint (5 * Minute) = 300000000000"
  by (simp add: Minute_def Second_def)

lemma GetExecutionTimeout_pos: "0 < sint (GetExecutionTimeout n)"
  by (auto simp: GetExecutionTimeout_def five_minutes word_sless_alt split: option.splits)

lemma GetExecutionTimeout_nonzero: "GetExecutionTimeout n \<noteq> 0"
  using GetExecutionTimeout_pos [of n] by auto

text \<open>
  Claim C6, as stated, fails: a node configured with a 60 second timeout in a workflow
  whose config has a 120 second timeout runs its plugin under 60 seconds, not under the
  minimum with the 30 second default.
\<close>

theorem C6_timeout_counterexample:
  "sint (executeNode_timeout workflow120 node60) = 60000000000 \<and>
   spec_timeout workflow120 node60 = 30000000000 \<and>
   sint (executeNode_timeout workflow120 node60) \<noteq> spec_timeout workflow120 node60"
  by (simp add: executeNode_timeout_def GetExecutionTimeout_def node60_def spec_timeout_def
        configuredTimeout_def workflow120_def Second_def word_sless_alt)

text \<open>
  The fallback of \<open>executeNode\<close> to 30 seconds is unreachable: \<open>GetExecutionTimeout\<close>
  is never 0, and a node without a positive configured timeout runs under its 5 minutes.
\<close>

lemma executeNode_timeout_default:
  "executeNode_timeout workflow node = GetExecutionTimeout node \<and>
   (configuredTimeout node = None \<or> (\<exists>t. configuredTimeout node = Some t \<and> sint t \<le> 0) \<longrightarrow>
      sint (executeNode_timeout workflow node) = 300 * sint Second)"
proof -
  have eq: "executeNode_timeout workflow node = GetExecutionTimeout node"
    using GetExecutionTimeout_nonzero [of node] by (simp add: executeNode_timeout_def Let_def)
  have dflt: "configuredTimeout node = None \<or> (\<exists>t. configuredTimeout node = Some t \<and> sint t \<le> 0) \<longrightarrow>
      sint (GetExecutionTimeout node) = 300 * sint Second"
    by (auto simp: configuredTimeout_def GetExecutionTimeout_def word_sless_alt five_minutes
          Second_def split: option.splits)
  show ?thesis using dflt by (simp add: eq)
qed

text \<open>
  Claim C6, amended. For a node whose configuration sets a positive execution timeout,
  the timeout of the plugin call is that configured timeout; and for every node the
  timeout is the same whatever the workflow (and its config) is. No minimum with the
  workflow's timeout or with the 30 second default is taken.
\<close>

theorem C6_timeout:
  "(configuredTimeout node = Some t \<and> 0 < sint t \<longrightarrow> executeNode_timeout workflow node = t) \<and>
   executeNode_timeout workflow node = executeNode_timeout workflow' node"
proof -
  have eq: "executeNode_timeout wf node = GetExecutionTimeout node" for wf
    using GetExecutionTimeout_nonzero [of node] by (simp add: executeNode_timeout_def Let_def)
  have pos: "configuredTimeout node = Some t \<and> 0 < sint t \<longrightarrow> GetExecutionTimeout node = t"
    by (auto simp: configuredTimeout_def GetExecutionTimeout_def word_sless_alt
          split: option.splits)
  show ?thesis using pos by (simp add: eq)
qed

theorem C6_timeout_witness:
  "executeNode_timeout workflow120 node60 = 60 * Second \<and>
   executeNode_timeout workflow120 node60 = executeNode_timeout bareWorkflow node60"
proof -
  have a: "configuredTimeout node60 = Some (60 * Second) \<and> 0 < sint (60 * Second :: Duration)"
    by (simp add: configuredTimeout_def node60_def Second_def)
  show ?thesis
    using C6_timeout [of node60 "60 * Second" workflow120 bareWorkflow] a by blast
qed

subsection \<open>Workflow statistics\<close>

lemma sdiv_truncate_rat:
  fixes a b :: int
  assumes "0 < b"
  shows "a sdiv b = truncate_rat (of_int a / of_int b)"
proof (cases "0 \<le> a")
  case True
  then have "(0::rat) \<le> of_int a / of_int b" using assms by simp
  moreover have "a sdiv b = a div b" using True assms
    by (simp add: signed_divide_int_def sgn_if)
  ultimately show ?thesis by (simp add: truncate_rat_def floor_divide_of_int_eq)
next
  case False
  then have neg: "(of_int a / of_int b :: rat) < 0" using assms
    by (simp add: divide_neg_pos)
  have "a sdiv b = - ((- a) div b)" using False assms
    by (simp add: signed_divide_int_def sgn_if)
  also have "\<dots> = - \<lfloor>(of_int (- a) / of_int b :: rat)\<rfloor>"
    by (simp only: floor_divide_of_int_eq)
  also have "\<dots> = \<lceil>(of_int a / of_int b :: rat)\<rceil>"
    by (simp add: ceiling_def)
  finally show ?thesis using neg by (simp add: truncate_rat_def)
qed

lemma sint_word_of_int_range:
  "- (2 ^ 63) \<le> k \<Longrightarrow> k < 2 ^ 63 \<Longrightarrow> sint (word_of_int k :: 64 word) = k"
  by (simp add: sint_sbintrunc' signed_take_bit_int_eq_self)

lemma sint_succ_range:
  fixes a :: "64 word"
  assumes "sint a + 1 < 2 ^ 63"
  shows "sint (a + 1) = sint a + 1"
proof -
  have "- (2 ^ 63) \<le> sint a" using sint_ge [of a] by simp
  then have "sint (word_of_int (sint a + 1) :: 64 word) = sint a + 1"
    using assms by (intro sint_word_of_int_range) auto
  then show ?thesis by simp
qed

lemma sint_mult_add_range:
  fixes a t d :: "64 word"
  assumes "- (2 ^ 63) \<le> sint a * sint t + sint d" "sint a * sint t + sint d < 2 ^ 63"
  shows "sint (a * t + d) = sint a * sint t + sint d"
proof -
  have "a * t + d = word_of_int (sint a * sint t + sint d)" by simp
  then show ?thesis using sint_word_of_int_range [OF assms] by simp
qed

lemma sint_go_div:
  fixes x y :: "64 word"
  assumes "1 < sint y"
  shows "sint (go_div x y) = sint x sdiv sint y"
proof -
  have b: "- (2 ^ 63) \<le> sint x" "sint x < 2 ^ 63"
    using sint_ge [of x] sint_lt [of x] by simp_all
  have "\<bar>sint x\<bar> div sint y \<le> \<bar>sint x\<bar> div 2"
    using assms by (intro zdiv_mono2) auto
  moreover have "\<bar>sint x\<bar> div 2 < 2 ^ 63" using b by simp
  moreover have "0 \<le> \<bar>sint x\<bar> div sint y"
    using assms by (simp add: pos_imp_zdiv_nonneg_iff)
  ultimately have "- (2 ^ 63) \<le> sint x sdiv sint y" "sint x sdiv sint y < 2 ^ 63"
    using assms by (auto simp: signed_divide_int_def sgn_if)
  then show ?thesis unfolding go_div_def by (rule sint_word_of_int_range)
qed

text \<open>
  Claim C9, as stated, fails: with one earlier run of average 1 ns, a second run of 2 ns
  gives the average 1 ns, while the exact mean \<open>(1 * (2 - 1) + 2) / 2\<close> is 3/2.
\<close>

theorem C9_average_counterexample:
  "UpdateStatistics 7 2 True (bareWorkflow\<lparr>wf_Statistics := Some statsOnce\<rparr>) =
     Inr (bareWorkflow\<lparr>wf_Statistics :=
       Some \<lparr>stat_TotalExecutions = 2, stat_SuccessfulRuns = 2, stat_FailedRuns = 0,
             stat_AverageExecTime = 1, stat_LastExecutionTime = Some 7\<rparr>\<rparr>) \<and>
   \<not> moving_average_exact 2 1 2 1"
  by (simp add: UpdateStatistics_def statsOnce_def go_div_def moving_average_exact_def)

text \<open>
  Claim C9, amended. Let \<open>n\<close> be the total after counting the new run. When \<open>n = 1\<close>
  the new average is the observed duration. Otherwise, as long as the counter does not
  wrap and \<open>avgOld * (n - 1) + d\<close> fits in 64 bits, the new average is that sum divided
  by \<open>n\<close> with Go's integer division: the exact mean rounded towards zero to whole
  nanoseconds.
\<close>

theorem C9_average:
  assumes stats: "wf_Statistics w = Some s"
    and total: "0 \<le> sint (stat_TotalExecutions s)" "sint (stat_TotalExecutions s) + 1 < 2 ^ 63"
    and n: "n = sint (stat_TotalExecutions s) + 1"
    and range: "- (2 ^ 63) \<le> sint (stat_AverageExecTime s) * (n - 1) + sint d"
               "sint (stat_AverageExecTime s) * (n - 1) + sint d < 2 ^ 63"
  shows "\<exists>w' s'. UpdateStatistics now d success w = Inr w' \<and> wf_Statistics w' = Some s' \<and>
           sint (stat_TotalExecutions s') = n \<and>
           (n = 1 \<longrightarrow> stat_AverageExecTime s' = d) \<and>
           (n \<noteq> 1 \<longrightarrow>
              sint (stat_AverageExecTime s') = (sint (stat_AverageExecTime s) * (n - 1) + sint d) sdiv n \<and>
              sint (stat_AverageExecTime s') =
                truncate_rat ((of_int (sint (stat_AverageExecTime s)) * (of_int n - 1) + of_int (sint d))
                              / of_int n))"
proof -
  define t where "t = stat_TotalExecutions s"
  define a where "a = stat_AverageExecTime s"
  have sn: "sint (t + 1) = n" using sint_succ_range [of t] total n by (simp add: t_def)
  show ?thesis
  proof (cases "n = 1")
    case True
    then have "sint t = 0" using n by (simp add: t_def)
    moreover have "t = word_of_int (sint t)" by simp
    ultimately have "t = 0" by simp
    then show ?thesis using stats True sn
      by (cases success) (auto simp: UpdateStatistics_def Let_def t_def)
  next
    case False
    then have n2: "1 < n" using total n by simp
    have t1: "t + 1 \<noteq> 1" using sn False by auto
    have t0: "t + 1 \<noteq> 0" using sn n2 by auto
    have lin: "sint (a * t + d) = sint a * (n - 1) + sint d"
      using sint_mult_add_range [of a t d] range n by (simp add: a_def t_def)
    have q: "sint (go_div (a * t + d) (t + 1)) = (sint a * (n - 1) + sint d) sdiv n"
      using sint_go_div [of "t + 1" "a * t + d"] n2 by (simp add: sn lin)
    have tr: "(sint a * (n - 1) + sint d) sdiv n =
        truncate_rat ((of_int (sint a) * (of_int n - 1) + of_int (sint d)) / of_int n)"
      using sdiv_truncate_rat [of n "sint a * (n - 1) + sint d"] n2 by simp
    show ?thesis using stats False sn t1 t0 q tr
      by (cases success) (auto simp: UpdateStatistics_def Let_def t_def a_def)
  qed
qed

theorem C9_average_witness:
  "\<exists>w' s'. UpdateStatistics 7 2 True (bareWorkflow\<lparr>wf_Statistics := Some statsOnce\<rparr>) = Inr w' \<and>
      wf_Statistics w' = Some s' \<and> sint (stat_TotalExecutions s') = 2 \<and>
      sint (stat_AverageExecTime s') = 1"
proof -
  have h1: "wf_Statistics (bareWorkflow\<lparr>wf_Statistics := Some statsOnce\<rparr>) = Some statsOnce"
    by simp
  have h2: "0 \<le> sint (stat_TotalExecutions statsOnce)"
    and h3: "sint (stat_TotalExecutions statsOnce) + 1 < 2 ^ 63"
    and h4: "(2::int) = sint (stat_TotalExecutions statsOnce) + 1"
    and h5: "- (2 ^ 63) \<le> sint (stat_AverageExecTime statsOnce) * (2 - 1) + sint (2 :: Duration)"
    and h6: "sint (stat_AverageExecTime statsOnce) * (2 - 1) + sint (2 :: Duration) < 2 ^ 63"
    by (simp_all add: statsOnce_def)
  have v: "(sint (stat_AverageExecTime statsOnce) * (2 - 1) + sint (2 :: Duration)) sdiv 2 = 1"
    by (simp add: statsOnce_def)
  from C9_average [OF h1 h2 h3 h4 h5 h6, of 7 True] obtain w' s' where
    "UpdateStatistics 7 2 True (bareWorkflow\<lparr>wf_Statistics := Some statsOnce\<rparr>) = Inr w'"
    "wf_Statistics w' = Some s'" "sint (stat_TotalExecutions s') = 2"
    "sint (stat_AverageExecTime s') =
       (sint (stat_AverageExecTime statsOnce) * (2 - 1) + sint (2 :: Duration)) sdiv 2"
    by auto
  with v show ?thesis by metis
qed

subsection \<open>Edge conditions\<close>

lemmas fields_eval = Fields_def spaceWidth_def spaceSeqs_def flushField_def

lemma Fields_true: "Fields ''true'' = [''true'']"
  by (simp add: fields_eval)

lemma Fields_false: "Fields ''false'' = [''false'']"
  by (simp add: fields_eval)

lemma Fields_x_gt_10: "Fields ''x > 10'' = [''x'', ''>'', ''10'']"
  by (simp add: fields_eval)

lemma three_tokens_not_literal:
  "Fields expr = [field, op, v] \<Longrightarrow> expr \<noteq> ''true'' \<and> expr \<noteq> ''false''"
  using Fields_true Fields_false by auto

lemma EvaluateCondition_simple:
  "enabledSimpleExpr e = Some expr \<Longrightarrow>
     EvaluateCondition e vars = evaluateSimpleCondition expr vars"
  by (auto simp: enabledSimpleExpr_def EvaluateCondition_def split: if_splits option.splits)

lemma enabledSimpleExpr_simpleEdge: "enabledSimpleExpr (simpleEdge expr) = Some expr"
  by (simp add: enabledSimpleExpr_def simpleEdge_def IsConditional_def EdgeTypeConditional_def)

lemma compareOp_int:
  "op \<in> comparison_ops \<Longrightarrow> compareOp op k n = Inr (int_compare op (sint k) (sint n))"
  by (auto simp: comparison_ops_def compareOp_def int_compare_def word_sless_alt word_sle_eq
        word_eq_iff_signed)

text \<open>
  Claim C3, as stated, fails on its second half: for the well-formed expression
  \<open>x > 10\<close> and a variable \<open>x\<close> holding a string, the evaluation reports the error
  "cannot compare non-numeric value".
\<close>

theorem C3_counterexample:
  "Fields ''x > 10'' = [''x'', ''>'', ''10''] \<and>
   EvaluateCondition (simpleEdge ''x > 10'') [''x'' \<mapsto> StringV ''abc''] = Inl NonNumericValue"
  by (simp add: Fields_x_gt_10 EvaluateCondition_simple [OF enabledSimpleExpr_simpleEdge]
        evaluateSimpleCondition_def contextNumOf_def)

text \<open>
  Claim C3, amended. For a conditional edge with an enabled simple condition whose
  expression splits into three tokens \<open>field OP value\<close>: when the field is absent from
  the variables the evaluation returns false and no error (whatever the operator and
  the value are); when the field holds a value that is neither an \<open>int\<close> nor a
  \<open>float64\<close> the evaluation returns the error "cannot compare non-numeric value".
\<close>

theorem C3_unresolved_or_non_numeric:
  assumes "enabledSimpleExpr e = Some expr" and "Fields expr = [field, op, v]"
  shows "(vars field = None \<longrightarrow> EvaluateCondition e vars = Inr False) \<and>
         (vars field = Some x \<and> (\<forall>n. x \<noteq> IntV n) \<and> (\<forall>f. x \<noteq> Float64V f) \<longrightarrow>
            EvaluateCondition e vars = Inl NonNumericValue)"
proof -
  have nl: "expr \<noteq> ''true''" "expr \<noteq> ''false''"
    using three_tokens_not_literal [OF assms(2)] by simp_all
  have num: "(\<forall>n. x \<noteq> IntV n) \<and> (\<forall>f. x \<noteq> Float64V f) \<Longrightarrow> contextNumOf x = None"
    by (cases x) (simp_all add: contextNumOf_def)
  show ?thesis
    using nl assms(2) num
    by (auto simp: EvaluateCondition_simple [OF assms(1)] evaluateSimpleCondition_def)
qed

theorem C3_witness:
  "EvaluateCondition (simpleEdge ''x > 10'') Map.empty = Inr False \<and>
   EvaluateCondition (simpleEdge ''x > 10'') [''x'' \<mapsto> BoolV True] = Inl NonNumericValue"
proof -
  have 1: "EvaluateCondition (simpleEdge ''x > 10'') Map.empty = Inr False"
    using C3_unresolved_or_non_numeric [OF enabledSimpleExpr_simpleEdge Fields_x_gt_10,
        of Map.empty NilV]
    by simp
  have 2: "EvaluateCondition (simpleEdge ''x > 10'') [''x'' \<mapsto> BoolV True] = Inl NonNumericValue"
    using C3_unresolved_or_non_numeric [OF enabledSimpleExpr_simpleEdge Fields_x_gt_10,
        of "[''x'' \<mapsto> BoolV True]" "BoolV True"]
    by simp
  from 1 2 show ?thesis by blast
qed

lemma float_truncation:
  "- (2 ^ 63) \<le> truncate_rat q \<Longrightarrow> truncate_rat q < 2 ^ 63 \<Longrightarrow>
     sint (float64_to_int (Finite q)) = truncate_rat q"
  by (simp add: float64_to_int_def sint_sbintrunc' signed_take_bit_int_eq_self)

text \<open>
  Claim C4. For a conditional edge with an enabled simple condition: the literals
  evaluate to themselves; a three-token expression with one of the seven operators, a
  value that \<open>Sscanf\<close> reads as an \<open>int\<close> and a field holding an \<open>int\<close> evaluates to the
  comparison of the two integers, and a field holding a \<open>float64\<close> is converted to
  \<open>int\<close> first (the truncation, for a finite float whose truncation fits the \<open>int\<close>
  range); every other expression
  that is not a literal and does not split into exactly three tokens gives the
  invalid-expression error.
\<close>

theorem C4_simple_conditions:
  assumes "enabledSimpleExpr e = Some expr"
  shows "(expr = ''true'' \<longrightarrow> EvaluateCondition e vars = Inr True) \<and>
         (expr = ''false'' \<longrightarrow> EvaluateCondition e vars = Inr False) \<and>
         (Fields expr = [field, op, v] \<and> op \<in> comparison_ops \<and> Sscanf_d v = Some n \<and>
            vars field = Some (IntV k) \<longrightarrow>
            EvaluateCondition e vars = Inr (int_compare op (sint k) (sint n))) \<and>
         (Fields expr = [field, op, v] \<and> op \<in> comparison_ops \<and> Sscanf_d v = Some n \<and>
            vars field = Some (Float64V f) \<longrightarrow>
            EvaluateCondition e vars = Inr (int_compare op (sint (float64_to_int f)) (sint n))) \<and>
         (Fields expr = [field, op, v] \<and> op \<in> comparison_ops \<and> Sscanf_d v = Some n \<and>
            vars field = Some (Float64V (Finite q)) \<and>
            - (2 ^ 63) \<le> truncate_rat q \<and> truncate_rat q < 2 ^ 63 \<longrightarrow>
            EvaluateCondition e vars = Inr (int_compare op (truncate_rat q) (sint n))) \<and>
         (expr \<noteq> ''true'' \<and> expr \<noteq> ''false'' \<and> length (Fields expr) \<noteq> 3 \<longrightarrow>
            EvaluateCondition e vars = Inl (InvalidExpressionFormat expr))"
proof -
  note ev = EvaluateCondition_simple [OF assms]
  have lit: "(expr = ''true'' \<longrightarrow> EvaluateCondition e vars = Inr True) \<and>
         (expr = ''false'' \<longrightarrow> EvaluateCondition e vars = Inr False)"
    by (simp add: ev evaluateSimpleCondition_def)
  have cmp_int: "Fields expr = [field, op, v] \<and> op \<in> comparison_ops \<and> Sscanf_d v = Some n \<and>
            vars field = Some (IntV k) \<longrightarrow>
            EvaluateCondition e vars = Inr (int_compare op (sint k) (sint n))"
    using three_tokens_not_literal [of expr field op v]
    by (auto simp: ev evaluateSimpleCondition_def contextNumOf_def compareOp_int)
  have cmp_any_float: "Fields expr = [field, op, v] \<and> op \<in> comparison_ops \<and>
            Sscanf_d v = Some n \<and> vars field = Some (Float64V f) \<longrightarrow>
            EvaluateCondition e vars = Inr (int_compare op (sint (float64_to_int f)) (sint n))"
    using three_tokens_not_literal [of expr field op v]
    by (auto simp: ev evaluateSimpleCondition_def contextNumOf_def compareOp_int)
  have cmp_float: "Fields expr = [field, op, v] \<and> op \<in> comparison_ops \<and> Sscanf_d v = Some n \<and>
            vars field = Some (Float64V (Finite q)) \<and>
            - (2 ^ 63) \<le> truncate_rat q \<and> truncate_rat q < 2 ^ 63 \<longrightarrow>
            EvaluateCondition e vars = Inr (int_compare op (truncate_rat q) (sint n))"
    using three_tokens_not_literal [of expr field op v] float_truncation [of q]
    by (auto simp: ev evaluateSimpleCondition_def contextNumOf_def compareOp_int)
  have shape: "expr \<noteq> ''true'' \<and> expr \<noteq> ''false'' \<and> length (Fields expr) \<noteq> 3 \<longrightarrow>
            EvaluateCondition e vars = Inl (InvalidExpressionFormat expr)"
    by (auto simp: ev evaluateSimpleCondition_def split: list.splits)
  from lit cmp_int cmp_any_float cmp_float shape show ?thesis by blast
qed


lemma Sscanf_d_10: "Sscanf_d ''10'' = Some 10"
  by (simp add: Sscanf_d_def isDigit_def digitsValue_def)

lemma truncate_21_2: "truncate_rat (21 / 2) = 10"
  unfolding truncate_rat_def by (simp add: floor_eq_iff)

lemma float_21_2: "sint (float64_to_int (Finite (21 / 2))) = 10"
  using float_truncation [of "21 / 2"] by (simp add: truncate_21_2)

lemma Fields_two_tokens: "Fields ''x >10'' = [''x'', ''>10'']"
  by (simp add: fields_eval)

theorem C4_witness:
  "EvaluateCondition (simpleEdge ''true'') Map.empty = Inr True \<and>
   EvaluateCondition (simpleEdge ''false'') Map.empty = Inr False \<and>
   EvaluateCondition (simpleEdge ''x > 10'') [''x'' \<mapsto> IntV 15] = Inr True \<and>
   EvaluateCondition (simpleEdge ''x > 10'') [''x'' \<mapsto> Float64V (Finite (21 / 2))] = Inr False \<and>
   EvaluateCondition (simpleEdge ''x >10'') [''x'' \<mapsto> IntV 15] =
     Inl (InvalidExpressionFormat ''x >10'')"
proof -
  have ops: "''>'' \<in> comparison_ops" by (simp add: comparison_ops_def)
  have 1: "EvaluateCondition (simpleEdge ''true'') Map.empty = Inr True"
    using C4_simple_conditions [OF enabledSimpleExpr_simpleEdge, where expr = "''true''"]
    by blast
  have 2: "EvaluateCondition (simpleEdge ''false'') Map.empty = Inr False"
    using C4_simple_conditions [OF enabledSimpleExpr_simpleEdge, where expr = "''false''"]
    by blast
  have "EvaluateCondition (simpleEdge ''x > 10'') [''x'' \<mapsto> IntV 15] =
          Inr (int_compare ''>'' (sint (15 :: go_int)) (sint (10 :: go_int)))"
    using C4_simple_conditions [OF enabledSimpleExpr_simpleEdge, where field = "''x''"
        and op = "''>''" and v = "''10''" and n = 10 and vars = "[''x'' \<mapsto> IntV 15]"
        and k = 15] Fields_x_gt_10 ops Sscanf_d_10
    by simp
  then have 3: "EvaluateCondition (simpleEdge ''x > 10'') [''x'' \<mapsto> IntV 15] = Inr True"
    by (simp add: int_compare_def)
  have "EvaluateCondition (simpleEdge ''x > 10'') [''x'' \<mapsto> Float64V (Finite (21 / 2))] =
          Inr (int_compare ''>'' (truncate_rat (21 / 2)) (sint (10 :: go_int)))"
    using C4_simple_conditions [OF enabledSimpleExpr_simpleEdge, where field = "''x''"
        and op = "''>''" and v = "''10''" and n = 10
        and vars = "[''x'' \<mapsto> Float64V (Finite (21 / 2))]" and q = "21 / 2"]
      Fields_x_gt_10 ops Sscanf_d_10 truncate_21_2 float_21_2
    by simp
  then have 4: "EvaluateCondition (simpleEdge ''x > 10'') [''x'' \<mapsto> Float64V (Finite (21 / 2))] =
      Inr False"
    by (simp add: int_compare_def truncate_21_2)
  have 5: "EvaluateCondition (simpleEdge ''x >10'') [''x'' \<mapsto> IntV 15] =
     Inl (InvalidExpressionFormat ''x >10'')"
    using C4_simple_conditions [OF enabledSimpleExpr_simpleEdge,
        where vars = "[''x'' \<mapsto> IntV 15]" and expr = "''x >10''"] Fields_two_tokens
    by simp
  from 1 2 3 4 5 show ?thesis by blast
qed

subsection \<open>Scheduler\<close>

lemma calculateNextRun_window:
  assumes "task_Schedule task = Some s" and "nextRunOfType now s = Inr c"
  shows "calculateNextRun now task = Inr (spec_window s c task)"
  using assms
  by (auto simp: calculateNextRun_def spec_window_def Let_def max_def split: option.splits)

text \<open>
  Claim C8. For a task with a schedule, \<open>calculateNextRun\<close> rejects an interval schedule
  whose interval is not positive; otherwise it takes \<open>now + interval\<close> for an interval
  schedule, \<open>executeAt\<close> for a once schedule and the zero time for a manual schedule, and
  applies the time window to it: a time before the start time is replaced by the start
  time, and when the result is after the end time the task is disabled (its next run is
  left as it was) and no later tick hands it to \<open>triggerTask\<close>, so it is not fired again.
  (Inside \<open>triggerTask\<close> the computation runs for a task that was already due; the trigger
  for that due run follows the computation.)
\<close>

theorem C8_next_run:
  assumes "task_Schedule task = Some s"
  shows "(sched_Type s = ''interval'' \<and> sint (sched_Interval s) \<le> 0 \<longrightarrow>
            calculateNextRun now task = Inl IntervalMustBePositive) \<and>
         (sched_Type s = ''interval'' \<and> 0 < sint (sched_Interval s) \<longrightarrow>
            calculateNextRun now task = Inr (spec_window s (now + sint (sched_Interval s)) task)) \<and>
         (sched_Type s = ''once'' \<and> sched_ExecuteAt s = Some t \<longrightarrow>
            calculateNextRun now task = Inr (spec_window s t task)) \<and>
         (sched_Type s = ''manual'' \<longrightarrow>
            calculateNextRun now task = Inr (spec_window s zeroTime task)) \<and>
         (sched_StartTime s = Some startTime \<and> c < startTime \<and>
          (sched_EndTime s = None \<or> sched_EndTime s = Some endTime \<and> startTime \<le> endTime) \<longrightarrow>
            spec_window s c task = task\<lparr>task_NextRun := startTime\<rparr>) \<and>
         (sched_EndTime s = Some endTime \<and> endTime < c \<longrightarrow>
            spec_window s c task = task\<lparr>task_Enabled := False\<rparr> \<and>
            tickTask later (spec_window s c task) = (spec_window s c task, False))"
proof -
  have iv0: "sched_Type s = ''interval'' \<and> sint (sched_Interval s) \<le> 0 \<longrightarrow>
            calculateNextRun now task = Inl IntervalMustBePositive"
    using assms
    by (simp add: calculateNextRun_def nextRunOfType_def ScheduleTypeCron_def
          ScheduleTypeInterval_def word_sle_eq)
  have iv: "sched_Type s = ''interval'' \<and> 0 < sint (sched_Interval s) \<longrightarrow>
            nextRunOfType now s = Inr (now + sint (sched_Interval s))"
    by (simp add: nextRunOfType_def ScheduleTypeCron_def ScheduleTypeInterval_def word_sle_eq
          Add_def)
  have once: "sched_Type s = ''once'' \<and> sched_ExecuteAt s = Some t \<longrightarrow>
            nextRunOfType now s = Inr t"
    by (simp add: nextRunOfType_def ScheduleTypeCron_def ScheduleTypeInterval_def
          ScheduleTypeOnce_def)
  have man: "sched_Type s = ''manual'' \<longrightarrow> nextRunOfType now s = Inr zeroTime"
    by (simp add: nextRunOfType_def ScheduleTypeCron_def ScheduleTypeInterval_def
          ScheduleTypeOnce_def ScheduleTypeManual_def)
  have clamp: "sched_StartTime s = Some startTime \<and> c < startTime \<and>
          (sched_EndTime s = None \<or> sched_EndTime s = Some endTime \<and> startTime \<le> endTime) \<longrightarrow>
            spec_window s c task = task\<lparr>task_NextRun := startTime\<rparr>"
    by (auto simp: spec_window_def Let_def max_def)
  have dis: "sched_EndTime s = Some endTime \<and> endTime < c \<longrightarrow>
            spec_window s c task = task\<lparr>task_Enabled := False\<rparr> \<and>
            tickTask later (spec_window s c task) = (spec_window s c task, False)"
    by (auto simp: spec_window_def Let_def tickTask_def isDue_def split: option.splits)
  show ?thesis
    using iv0 iv once man clamp dis calculateNextRun_window [OF assms]
    by metis
qed


theorem C8_next_run_witness:
  "calculateNextRun 95 (intervalTask None (Some 100)) =
     Inr ((intervalTask None (Some 100))\<lparr>task_Enabled := False\<rparr>) \<and>
   tickTask 1000 ((intervalTask None (Some 100))\<lparr>task_Enabled := False\<rparr>) =
     ((intervalTask None (Some 100))\<lparr>task_Enabled := False\<rparr>, False) \<and>
   calculateNextRun 95 (intervalTask (Some 150) (Some 200)) =
     Inr ((intervalTask (Some 150) (Some 200))\<lparr>task_NextRun := 150\<rparr>)"
proof -
  let ?s1 = "intervalSchedule None (Some 100)" and ?t1 = "intervalTask None (Some 100)"
  let ?s2 = "intervalSchedule (Some 150) (Some 200)" and ?t2 = "intervalTask (Some 150) (Some 200)"
  have s1: "task_Schedule ?t1 = Some ?s1" and s2: "task_Schedule ?t2 = Some ?s2"
    by (simp_all add: intervalTask_def)
  have iv1: "sched_Type ?s1 = ''interval'' \<and> 0 < sint (sched_Interval ?s1)"
    and iv2: "sched_Type ?s2 = ''interval'' \<and> 0 < sint (sched_Interval ?s2)"
    by (simp_all add: intervalSchedule_def)
  have n1: "95 + sint (sched_Interval ?s1) = 105" and n2: "95 + sint (sched_Interval ?s2) = 105"
    by (simp_all add: intervalSchedule_def)
  have e1: "sched_EndTime ?s1 = Some 100 \<and> (100::int) < 105"
    by (simp add: intervalSchedule_def)
  have w2: "sched_StartTime ?s2 = Some 150 \<and> (105::int) < 150 \<and>
      (sched_EndTime ?s2 = None \<or> sched_EndTime ?s2 = Some 200 \<and> (150::int) \<le> 200)"
    by (simp add: intervalSchedule_def)
  note A = C8_next_run [OF s1, where now = 95 and c = 105 and endTime = 100 and later = 1000]
  note B = C8_next_run [OF s2, where now = 95 and c = 105 and startTime = 150 and endTime = 200]
  have 1: "calculateNextRun 95 ?t1 = Inr (spec_window ?s1 105 ?t1)"
    using A iv1 n1 by metis
  have 2: "spec_window ?s1 105 ?t1 = ?t1\<lparr>task_Enabled := False\<rparr> \<and>
      tickTask 1000 (spec_window ?s1 105 ?t1) = (spec_window ?s1 105 ?t1, False)"
    using A e1 by blast
  have 3: "calculateNextRun 95 ?t2 = Inr (spec_window ?s2 105 ?t2)"
    using B iv2 n2 by metis
  have 4: "spec_window ?s2 105 ?t2 = ?t2\<lparr>task_NextRun := 150\<rparr>"
    using B w2 by blast
  from 1 2 3 4 show ?thesis by metis
qed

subsection \<open>Updating a workflow\<close>

lemma copyProvidedFields_fields:
  "wf_Name (copyProvidedFields ex r) = (if wf_Name r \<noteq> [] then wf_Name r else wf_Name ex)"
  "wf_Description (copyProvidedFields ex r) =
     (if wf_Description r \<noteq> [] then wf_Description r else wf_Description ex)"
  "wf_Version (copyProvidedFields ex r) = (if wf_Version r \<noteq> [] then wf_Version r else wf_Version ex)"
  "wf_Nodes (copyProvidedFields ex r) = (if wf_Nodes r \<noteq> None then wf_Nodes r else wf_Nodes ex)"
  "wf_Edges (copyProvidedFields ex r) = (if wf_Edges r \<noteq> None then wf_Edges r else wf_Edges ex)"
  "wf_Schedule (copyProvidedFields ex r) =
     (if wf_Schedule r \<noteq> None then wf_Schedule r else wf_Schedule ex)"
  "wf_Config (copyProvidedFields ex r) = (if wf_Config r \<noteq> None then wf_Config r else wf_Config ex)"
  "wf_TagsList (copyProvidedFields ex r) =
     (if wf_TagsList r \<noteq> None then wf_TagsList r else wf_TagsList ex)"
  "wf_Priority (copyProvidedFields ex r) = (if wf_Priority r \<noteq> 0 then wf_Priority r else wf_Priority ex)"
  "wf_ID (copyProvidedFields ex r) = wf_ID ex"
  by (simp_all add: copyProvidedFields_def Let_def if_distrib [where f = wf_Name]
        if_distrib [where f = wf_Description] if_distrib [where f = wf_Version]
        if_distrib [where f = wf_Nodes] if_distrib [where f = wf_Edges]
        if_distrib [where f = wf_Schedule] if_distrib [where f = wf_Config]
        if_distrib [where f = wf_TagsList] if_distrib [where f = wf_Priority]
        if_distrib [where f = wf_ID])

lemma GetWorkflow_fields:
  assumes "st_workflows st ident = Some w"
  shows "\<exists>ex. GetWorkflow st ident = Inr ex \<and> wf_Name ex = wf_Name w \<and>
           wf_Description ex = wf_Description w \<and> wf_Version ex = wf_Version w \<and>
           wf_Nodes ex = wf_Nodes w \<and> wf_Edges ex = wf_Edges w \<and>
           wf_Schedule ex = wf_Schedule w \<and> wf_Config ex = wf_Config w \<and>
           wf_TagsList ex = wf_TagsList w \<and> wf_Priority ex = wf_Priority w \<and>
           wf_ID ex = wf_ID w"
  using assms by (simp add: GetWorkflow_def)

lemma storedAfterUpdate_cases:
  assumes "st_workflows st (wf_ID r) = Some w" and "wf_ID w = wf_ID r"
    and "GetWorkflow st (wf_ID r) = Inr ex"
  shows "storedAfterUpdate now ok st r = Some w \<or>
         storedAfterUpdate now ok st r = Some ((copyProvidedFields ex r)\<lparr>wf_UpdatedAt := now\<rparr>)"
proof -
  have "wf_ID ex = wf_ID r" using assms by (auto simp: GetWorkflow_def split: if_splits)
  then have "wf_ID (copyProvidedFields ex r) = wf_ID r" by (simp add: copyProvidedFields_fields)
  then show ?thesis using assms(1,3)
    by (auto simp: storedAfterUpdate_def UpdateWorkflow_def SaveWorkflow_def Let_def
             scheduleWorkflow_def split: sum.splits option.splits if_splits)
qed

text \<open>
  Claim C10. Whatever the outcome of \<open>UpdateWorkflow\<close>, a field of the request that holds
  its zero value (empty \<open>Name\<close>, \<open>Description\<close> or \<open>Version\<close>; nil \<open>Nodes\<close>, \<open>Edges\<close>,
  \<open>Schedule\<close>, \<open>Config\<close> or \<open>TagsList\<close>; \<open>Priority\<close> 0) leaves that field of the stored
  workflow as it was. So a stored priority other than 0 never becomes 0 and a stored
  non-empty description never becomes empty.
\<close>

theorem C10_zero_fields_keep_stored:
  assumes "st_workflows st (wf_ID request) = Some w" and "wf_ID w = wf_ID request"
  shows "\<exists>w'. storedAfterUpdate now save_ok st request = Some w' \<and>
           (wf_Name request = [] \<longrightarrow> wf_Name w' = wf_Name w) \<and>
           (wf_Description request = [] \<longrightarrow> wf_Description w' = wf_Description w) \<and>
           (wf_Version request = [] \<longrightarrow> wf_Version w' = wf_Version w) \<and>
           (wf_Nodes request = None \<longrightarrow> wf_Nodes w' = wf_Nodes w) \<and>
           (wf_Edges request = None \<longrightarrow> wf_Edges w' = wf_Edges w) \<and>
           (wf_Schedule request = None \<longrightarrow> wf_Schedule w' = wf_Schedule w) \<and>
           (wf_Config request = None \<longrightarrow> wf_Config w' = wf_Config w) \<and>
           (wf_TagsList request = None \<longrightarrow> wf_TagsList w' = wf_TagsList w) \<and>
           (wf_Priority request = 0 \<longrightarrow> wf_Priority w' = wf_Priority w) \<and>
           (wf_Priority w \<noteq> 0 \<longrightarrow> wf_Priority w' \<noteq> 0) \<and>
           (wf_Description w \<noteq> [] \<longrightarrow> wf_Description w' \<noteq> [])"
proof -
  from GetWorkflow_fields [OF assms(1)] obtain ex where
    g: "GetWorkflow st (wf_ID request) = Inr ex" and
    f: "wf_Name ex = wf_Name w" "wf_Description ex = wf_Description w"
       "wf_Version ex = wf_Version w" "wf_Nodes ex = wf_Nodes w" "wf_Edges ex = wf_Edges w"
       "wf_Schedule ex = wf_Schedule w" "wf_Config ex = wf_Config w"
       "wf_TagsList ex = wf_TagsList w" "wf_Priority ex = wf_Priority w"
    by blast
  from storedAfterUpdate_cases [OF assms g, of now save_ok]
  show ?thesis
  proof
    assume "storedAfterUpdate now save_ok st request = Some w"
    then show ?thesis by simp
  next
    assume "storedAfterUpdate now save_ok st request =
        Some ((copyProvidedFields ex request)\<lparr>wf_UpdatedAt := now\<rparr>)"
    then show ?thesis by (simp add: copyProvidedFields_fields f)
  qed
qed


theorem C10_witness:
  "\<exists>w'. storedAfterUpdate 7 True bareState renameRequest = Some w' \<and>
      wf_Description w' = ''first'' \<and> wf_Version w' = ''1.0.0'' \<and> wf_Priority w' = 5 \<and>
      wf_Nodes w' = None \<and> wf_Edges w' = None"
proof -
  have h1: "st_workflows bareState (wf_ID renameRequest) = Some bareWorkflow"
    by (simp add: bareState_def renameRequest_def)
  have h2: "wf_ID bareWorkflow = wf_ID renameRequest"
    by (simp add: bareWorkflow_def renameRequest_def)
  have z: "wf_Description renameRequest = []" "wf_Version renameRequest = []"
    "wf_Priority renameRequest = 0" "wf_Nodes renameRequest = None"
    "wf_Edges renameRequest = None"
    by (simp_all add: renameRequest_def)
  have b: "wf_Description bareWorkflow = ''first''" "wf_Version bareWorkflow = ''1.0.0''"
    "wf_Priority bareWorkflow = 5" "wf_Nodes bareWorkflow = None" "wf_Edges bareWorkflow = None"
    by (simp_all add: bareWorkflow_def)
  from C10_zero_fields_keep_stored [OF h1 h2, of 7 True] z b show ?thesis
    by metis
qed

subsection \<open>Activating a workflow\<close>

lemma cyclic_pairs:
  "enabledEdgePairs (cyclicWorkflow\<lparr>wf_Status := ''active'', wf_UpdatedAt := 7\<rparr>) =
     {(''a'', ''b''), (''b'', ''a'')}"
  by (simp add: enabledEdgePairs_def edgesOf_def cyclicWorkflow_def plainEdge_def IsEnabled_def
        EdgeStatusDisabled_def)

lemma two_cycle_not_acyclic: "\<not> acyclic {(x, y), (y, x)}"
proof -
  have "(x, y) \<in> {(x, y), (y, x)}\<^sup>+" by (rule r_into_trancl) simp
  moreover have "(y, x) \<in> {(x, y), (y, x)}" by simp
  ultimately have "(x, x) \<in> {(x, y), (y, x)}\<^sup>+" by (rule trancl_into_trancl)
  then show ?thesis by (auto simp: acyclic_def)
qed

lemma GetWorkflow_status:
  "st_workflows st ident = Some w \<Longrightarrow>
     GetWorkflow st ident =
       Inr (if wf_Status w = [] then w\<lparr>wf_Status := ''inactive''\<rparr> else w)"
  by (simp add: GetWorkflow_def status_defs)

text \<open>
  What \<open>ActivateWorkflow\<close> checks. For a stored workflow it succeeds exactly when the
  status is inactive (or empty, which is read as inactive) or paused and the save
  succeeds. It then stores the workflow with status active and a new update time, with
  its nodes and edges as they were. When it fails the state is unchanged.
\<close>

lemma ActivateWorkflow_outcome:
  assumes "st_workflows st ident = Some w" and "wf_ID w = ident"
  shows "(fst (ActivateWorkflow now save_ok st ident) = None \<longleftrightarrow>
            (wf_Status w = [] \<or> wf_Status w = ''inactive'' \<or> wf_Status w = ''paused'') \<and> save_ok) \<and>
         (fst (ActivateWorkflow now save_ok st ident) = None \<longrightarrow>
            st_workflows (snd (ActivateWorkflow now save_ok st ident)) ident =
              Some (w\<lparr>wf_Status := ''active'', wf_UpdatedAt := now\<rparr>)) \<and>
         (fst (ActivateWorkflow now save_ok st ident) \<noteq> None \<longrightarrow>
            snd (ActivateWorkflow now save_ok st ident) = st)"
proof -
  let ?w0 = "if wf_Status w = [] then w\<lparr>wf_Status := ''inactive''\<rparr> else w"
  have g: "GetWorkflow st ident = Inr ?w0" by (rule GetWorkflow_status [OF assms(1)])
  have v: "ValidateWorkflowTransition (wf_Status ?w0) WorkflowStatusActive = Inr () \<longleftrightarrow>
      (wf_Status w = [] \<or> wf_Status w = ''inactive'' \<or> wf_Status w = ''paused'')"
    by (auto simp: ValidateWorkflowTransition_iff workflow_table_def status_defs)
  have id0: "wf_ID ?w0 = ident" using assms(2) by simp
  have upd: "?w0\<lparr>wf_Status := WorkflowStatusActive, wf_UpdatedAt := now\<rparr> =
      w\<lparr>wf_Status := ''active'', wf_UpdatedAt := now\<rparr>"
    by (simp add: status_defs)
  show ?thesis
    using v id0
    by (cases "ValidateWorkflowTransition (wf_Status ?w0) WorkflowStatusActive")
       (auto simp: ActivateWorkflow_def g Let_def SaveWorkflow_def upd
          RecordWorkflowTransition_def scheduleWorkflow_def
          split: sum.splits option.splits if_splits)
qed

lemma cyclicWorkflow_not_validated:
  "\<not> graph_validated (cyclicWorkflow\<lparr>wf_Status := ''active'', wf_UpdatedAt := 7\<rparr>)"
proof -
  have "\<not> acyclic (enabledEdgePairs (cyclicWorkflow\<lparr>wf_Status := ''active'', wf_UpdatedAt := 7\<rparr>))"
    by (simp only: cyclic_pairs two_cycle_not_acyclic not_False_eq_True)
  then show ?thesis unfolding graph_validated_def by blast
qed

text \<open>
  Claim C2 is not met by the code. \<open>ActivateWorkflow\<close> never inspects the graph: the
  workflow whose two enabled edges form the cycle \<open>a \<rightarrow> b \<rightarrow> a\<close> is activated, and
  the workflow stored as active has a cyclic enabled-edge graph. The rules in the header
  of edge.go ("no cycles", "a conditional edge must carry an expression") and the test
  case TC-CWF-015 of the repository's test plan ask for such a workflow to be rejected.
\<close>

theorem C2_activation_accepts_cycle:
  "fst (ActivateWorkflow 7 True cyclicState ''w1'') = None \<and>
   st_workflows (snd (ActivateWorkflow 7 True cyclicState ''w1'')) ''w1'' =
     Some (cyclicWorkflow\<lparr>wf_Status := ''active'', wf_UpdatedAt := 7\<rparr>) \<and>
   \<not> acyclic (enabledEdgePairs (cyclicWorkflow\<lparr>wf_Status := ''active'', wf_UpdatedAt := 7\<rparr>))"
proof -
  have run: "ActivateWorkflow 7 True cyclicState ''w1'' =
      (None, cyclicState\<lparr>st_workflows :=
                 [''w1'' \<mapsto> cyclicWorkflow\<lparr>wf_Status := ''active'', wf_UpdatedAt := 7\<rparr>],
               st_transitionHistory :=
                 [\<lparr>tr_EntityType = ''workflow'', tr_EntityID = ''w1'',
                   tr_FromStatus = ''inactive'', tr_ToStatus = ''active'',
                   tr_Reason = ''manually activated'', tr_Operator = ''system'',
                   tr_Timestamp = 7\<rparr>]\<rparr>)"
    by (simp add: ActivateWorkflow_def GetWorkflow_def cyclicState_def bareState_def
          cyclicWorkflow_def bareWorkflow_def ValidateWorkflowTransition_def
          workflowTransitions_def status_defs SaveWorkflow_def RecordWorkflowTransition_def
          CanExecute_def)
  have cyc: "\<not> acyclic (enabledEdgePairs (cyclicWorkflow\<lparr>wf_Status := ''active'', wf_UpdatedAt := 7\<rparr>))"
    by (simp only: cyclic_pairs two_cycle_not_acyclic not_False_eq_True)
  with run show ?thesis by simp
qed

subsection \<open>Cancelling an execution\<close>

text \<open>
  Claim C5, as stated, fails: cancelling a completed execution is rejected by the
  execution service with an invalid-transition error, and the engine, which has
  dropped a terminated execution from its map, answers "execution not found".
\<close>

theorem C5_cancel_counterexample:
  "ExecutionService_CancelExecution 7 True doneState ''e1'' =
     (Some (Wrapped ''invalid state transition''
              (InvalidExecutionTransition ''completed'' ''cancelled'')), doneState) \<and>
   st_engine doneState = Some Map.empty \<and>
   Engine_CancelExecution Map.empty ''e1'' = Inl (EngineExecutionNotFound ''e1'')"
  by (simp add: ExecutionService_CancelExecution_def GetExecution_def doneState_def
        bareState_def completedExecution_def ValidateExecutionTransition_def
        executionTransitions_def status_defs Engine_CancelExecution_def)

lemma finished_not_cancellable:
  "IsFinished s \<Longrightarrow> \<exists>err. ValidateExecutionTransition s ExecutionStatusCancelled = Inl err"
  by (auto simp: IsFinished_def ValidateExecutionTransition_def executionTransitions_def
        status_defs)

lemma cancel_terminal:
  assumes "st_executions st ident = Some e" and "IsFinished (exec_Status e)"
  shows "\<exists>err. ExecutionService_CancelExecution now save_ok st ident =
           (Some (Wrapped ''invalid state transition'' err), st)"
proof -
  have ne: "exec_Status e \<noteq> []" using assms(2) by (auto simp: IsFinished_def status_defs)
  from finished_not_cancellable [OF assms(2)] obtain err where
    "ValidateExecutionTransition (exec_Status e) ExecutionStatusCancelled = Inl err" by blast
  then show ?thesis using assms(1) ne
    by (simp add: ExecutionService_CancelExecution_def GetExecution_def)
qed

lemma cancel_unknown:
  "st_executions st ident = None \<Longrightarrow>
     ExecutionService_CancelExecution now save_ok st ident = (Some (ExecutionNotFound ident), st)"
  by (simp add: ExecutionService_CancelExecution_def GetExecution_def)

lemma engine_cancel_twice:
  "executions ident = Some c \<Longrightarrow>
     Engine_CancelExecution executions ident = Inr (executions(ident \<mapsto> c\<lparr>ectx_cancelled := True\<rparr>)) \<and>
     Engine_CancelExecution (executions(ident \<mapsto> c\<lparr>ectx_cancelled := True\<rparr>)) ident =
       Inr (executions(ident \<mapsto> c\<lparr>ectx_cancelled := True\<rparr>))"
  by (simp add: Engine_CancelExecution_def)

lemma UpdateExecution_success:
  "UpdateExecution now save_ok st x = (None, st') \<Longrightarrow>
     st_executions st' (exec_ID x) = Some (x\<lparr>exec_UpdatedAt := now\<rparr>)"
  by (auto simp: UpdateExecution_def Let_def split: sum.splits if_splits)

lemma cancel_success_status:
  assumes "st_executions st ident = Some e" and "exec_ID e = ident"
    and "ExecutionService_CancelExecution now save_ok st ident = (None, st')"
  shows "\<exists>e'. st_executions st' ident = Some e' \<and> exec_Status e' = ExecutionStatusCancelled"
proof -
  let ?e0 = "if exec_Status e = [] then e\<lparr>exec_Status := ExecutionStatusPending\<rparr> else e"
  have g: "GetExecution st ident = Inr ?e0" using assms(1) by (simp add: GetExecution_def)
  from assms(3) obtain st2 where
    u: "UpdateExecution now save_ok st2
          (?e0\<lparr>exec_Status := ExecutionStatusCancelled, exec_CompletedAt := Some now\<rparr>) = (None, st')"
    by (auto simp: ExecutionService_CancelExecution_def g Let_def Cancel_def
          split: sum.splits if_splits)
  from UpdateExecution_success [OF u] assms(2) show ?thesis
    by (auto split: if_splits)
qed

text \<open>
  Claim C5, amended. The execution service rejects the cancellation of an execution in
  a terminal state (completed, failed, cancelled or timeout) with an invalid-transition
  error and leaves the state unchanged; for an id without a row it returns not-found,
  and so does the engine for an id that is not among its live executions. Cancelling a
  live execution in the engine twice succeeds both times with the same result. After a
  successful cancellation by the service, a repeated cancellation is rejected and
  changes nothing.
\<close>

theorem C5_cancel:
  "(st_executions st ident = Some e \<and> IsFinished (exec_Status e) \<longrightarrow>
      (\<exists>err. ExecutionService_CancelExecution now save_ok st ident =
         (Some (Wrapped ''invalid state transition'' err), st))) \<and>
   (st_executions st ident = None \<longrightarrow>
      ExecutionService_CancelExecution now save_ok st ident = (Some (ExecutionNotFound ident), st)) \<and>
   (executions ident = None \<longrightarrow>
      Engine_CancelExecution executions ident = Inl (EngineExecutionNotFound ident)) \<and>
   (executions ident = Some c \<longrightarrow>
      Engine_CancelExecution executions ident =
        Inr (executions(ident \<mapsto> c\<lparr>ectx_cancelled := True\<rparr>)) \<and>
      Engine_CancelExecution (executions(ident \<mapsto> c\<lparr>ectx_cancelled := True\<rparr>)) ident =
        Inr (executions(ident \<mapsto> c\<lparr>ectx_cancelled := True\<rparr>))) \<and>
   (st_executions st ident = Some e \<and> exec_ID e = ident \<and>
    ExecutionService_CancelExecution now save_ok st ident = (None, st') \<longrightarrow>
      (\<exists>err. ExecutionService_CancelExecution later save_ok' st' ident =
         (Some (Wrapped ''invalid state transition'' err), st')))"
proof -
  have last: "st_executions st ident = Some e \<and> exec_ID e = ident \<and>
    ExecutionService_CancelExecution now save_ok st ident = (None, st') \<longrightarrow>
      (\<exists>err. ExecutionService_CancelExecution later save_ok' st' ident =
         (Some (Wrapped ''invalid state transition'' err), st'))"
  proof
    assume a: "st_executions st ident = Some e \<and> exec_ID e = ident \<and>
      ExecutionService_CancelExecution now save_ok st ident = (None, st')"
    then obtain e' where e': "st_executions st' ident = Some e'"
      "exec_Status e' = ExecutionStatusCancelled"
      using cancel_success_status by blast
    then have "IsFinished (exec_Status e')" by (simp add: IsFinished_def)
    from cancel_terminal [OF e'(1) this] show "\<exists>err. ExecutionService_CancelExecution later save_ok' st' ident =
         (Some (Wrapped ''invalid state transition'' err), st')" .
  qed
  have eng0: "executions ident = None \<longrightarrow>
      Engine_CancelExecution executions ident = Inl (EngineExecutionNotFound ident)"
    by (simp add: Engine_CancelExecution_def)
  show ?thesis
    using cancel_terminal [of st ident e now save_ok] cancel_unknown [of st ident now save_ok]
      eng0 engine_cancel_twice [of executions ident c] last
    by blast
qed

theorem C5_cancel_witness:
  "(\<exists>err. ExecutionService_CancelExecution 7 True doneState ''e1'' =
      (Some (Wrapped ''invalid state transition'' err), doneState)) \<and>
   ExecutionService_CancelExecution 7 True doneState ''e2'' =
      (Some (ExecutionNotFound ''e2''), doneState) \<and>
   Engine_CancelExecution Map.empty ''e1'' = Inl (EngineExecutionNotFound ''e1'') \<and>
   (\<exists>st'. ExecutionService_CancelExecution 7 True runningState ''e1'' = (None, st') \<and>
      (\<exists>err. ExecutionService_CancelExecution 9 True st' ''e1'' =
         (Some (Wrapped ''invalid state transition'' err), st')))"
proof -
  have d1: "st_executions doneState ''e1'' = Some completedExecution \<and>
      IsFinished (exec_Status completedExecution)"
    by (simp add: doneState_def completedExecution_def IsFinished_def status_defs)
  have d2: "st_executions doneState ''e2'' = None"
    by (simp add: doneState_def)
  have r1: "st_executions runningState ''e1'' =
      Some (completedExecution\<lparr>exec_Status := ''running'', exec_CompletedAt := None\<rparr>) \<and>
      exec_ID (completedExecution\<lparr>exec_Status := ''running'', exec_CompletedAt := None\<rparr>) = ''e1''"
    by (simp add: runningState_def completedExecution_def)
  have "fst (ExecutionService_CancelExecution 7 True runningState ''e1'') = None"
    by (simp add: ExecutionService_CancelExecution_def GetExecution_def runningState_def
          bareState_def completedExecution_def ValidateExecutionTransition_def
          executionTransitions_def status_defs Cancel_def IsFinished_def
          RecordExecutionTransition_def Engine_CancelExecution_def UpdateExecution_def
          Execution_Validate_def ExecutionStatus_IsValid_def Let_def word_sless_alt)
  then obtain st' where r2: "ExecutionService_CancelExecution 7 True runningState ''e1'' = (None, st')"
    by (metis prod.collapse)
  have 1: "\<exists>err. ExecutionService_CancelExecution 7 True doneState ''e1'' =
      (Some (Wrapped ''invalid state transition'' err), doneState)"
    using C5_cancel [where st = doneState and ident = "''e1''" and e = completedExecution
        and now = 7 and save_ok = True] d1 by blast
  have 2: "ExecutionService_CancelExecution 7 True doneState ''e2'' =
      (Some (ExecutionNotFound ''e2''), doneState)"
    using C5_cancel [where st = doneState and ident = "''e2''" and now = 7 and save_ok = True] d2
    by blast
  have 3: "Engine_CancelExecution Map.empty ''e1'' = Inl (EngineExecutionNotFound ''e1'')"
    using C5_cancel [where executions = Map.empty and ident = "''e1''"] by simp
  have 4: "\<exists>err. ExecutionService_CancelExecution 9 True st' ''e1'' =
         (Some (Wrapped ''invalid state transition'' err), st')"
    using C5_cancel [where st = runningState and ident = "''e1''" and now = 7 and save_ok = True
        and st' = st' and later = 9 and save_ok' = True
        and e = "completedExecution\<lparr>exec_Status := ''running'', exec_CompletedAt := None\<rparr>"]
      r1 r2 by blast
  from 1 2 3 4 r2 show ?thesis by blast
qed

end
